theory Spec2Isabelle
  imports Complex_Main
begin

section \<open>Time series forest: the interval sampler\<close>

text \<open>
  The embedding follows \<^verbatim>\<open>sktime/series_as_features/base/estimators/interval_based/_tsf.py\<close>.
  Python integers are \<open>int\<close>, exceptions are values of \<open>error\<close>, and a function that
  can raise returns \<open>error + 'a\<close> with \<open>Inl\<close> for the exception. Isabelle names cannot start
  with an underscore, so \<^verbatim>\<open>_get_intervals\<close> is \<open>get_intervals\<close>, \<^verbatim>\<open>_fit\<close> is \<open>fit\<close>, and
  so on.
\<close>

datatype error = ValueError | IndexError | NotFittedError | WorkerFitError

subsection \<open>The random generator\<close>

text \<open>
  \<^verbatim>\<open>rng\<close> is a numpy \<^verbatim>\<open>RandomState\<close>. Its Mersenne Twister is not modelled: the state of
  the generator is the stream of raw numbers it is still going to produce, and a draw
  consumes the head of the stream. \<^verbatim>\<open>rng.randint(high)\<close> returns an integer of
  \<open>[0, high)\<close> and raises \<^verbatim>\<open>ValueError\<close> when \<open>high \<le> 0\<close>. Every value of \<open>[0, high)\<close>
  is the result for some stream, so a statement about all streams is a statement about
  all outcomes of the draw.
\<close>

type_synonym rng = "nat \<Rightarrow> nat"

definition randint :: "int \<Rightarrow> rng \<Rightarrow> error + (int \<times> rng)" where
  "randint high s =
     (if high \<le> 0 then Inl ValueError
      else Inr (int (s 0) mod high, (\<lambda>i. s (Suc i))))"

subsection \<open>\<^verbatim>\<open>_get_intervals\<close>\<close>

text \<open>
  The body of the loop, lines 210 to 214: the start is drawn below
  \<open>series_length - min_interval\<close>, the length below \<open>series_length - start - 1\<close>, a length
  under the minimum is raised to the minimum, and the end is \<open>start + length\<close>.
\<close>

definition clamp_length :: "int \<Rightarrow> int \<Rightarrow> int" where
  "clamp_length min_interval len = (if len < min_interval then min_interval else len)"

definition interval_step :: "int \<Rightarrow> int \<Rightarrow> rng \<Rightarrow> error + ((int \<times> int) \<times> rng)" where
  "interval_step min_interval series_length rng =
     (case randint (series_length - min_interval) rng of
        Inl e \<Rightarrow> Inl e
      | Inr (start, rng1) \<Rightarrow>
          (case randint (series_length - start - 1) rng1 of
             Inl e \<Rightarrow> Inl e
           | Inr (len, rng2) \<Rightarrow>
               Inr ((start, start + clamp_length min_interval len), rng2)))"

text \<open>The loop \<^verbatim>\<open>for j in range(n_intervals)\<close>, one row of the array per turn.\<close>

fun intervals_loop :: "nat \<Rightarrow> int \<Rightarrow> int \<Rightarrow> rng \<Rightarrow> error + ((int \<times> int) list \<times> rng)" where
  "intervals_loop 0 min_interval series_length rng = Inr ([], rng)"
| "intervals_loop (Suc k) min_interval series_length rng =
     (case interval_step min_interval series_length rng of
        Inl e \<Rightarrow> Inl e
      | Inr (iv, rng1) \<Rightarrow>
          (case intervals_loop k min_interval series_length rng1 of
             Inl e \<Rightarrow> Inl e
           | Inr (ivs, rng2) \<Rightarrow> Inr (iv # ivs, rng2)))"

text \<open>
  \<^verbatim>\<open>np.zeros((n_intervals, 2), dtype=int)\<close> raises \<^verbatim>\<open>ValueError\<close> on a negative
  dimension. The array of \<open>n_intervals\<close> rows and two columns is a list of pairs; numpy
  stores the bounds as 64-bit integers, and they are unbounded integers here (every
  bound that a call returns lies in \<open>[0, series_length)\<close>). The generator is returned
  with the intervals: Python mutates it in place.
\<close>

definition get_intervals :: "int \<Rightarrow> int \<Rightarrow> int \<Rightarrow> rng \<Rightarrow> error + ((int \<times> int) list \<times> rng)" where
  "get_intervals n_intervals min_interval series_length rng =
     (if n_intervals < 0 then Inl ValueError
      else intervals_loop (nat n_intervals) min_interval series_length rng)"

section \<open>Arrays and the feature extractor\<close>

text \<open>
  A two-dimensional numpy array is its shape and its rows: the shape is kept beside the
  rows because an array of no rows still has a number of columns. An array that numpy
  can build satisfies \<open>wf_ndarray\<close>. Floating-point numbers are real numbers here: rounding,
  the cast to \<^verbatim>\<open>float32\<close> and \<^verbatim>\<open>nan\<close> are not modelled (on an empty slice \<^verbatim>\<open>np.mean\<close> gives
  \<^verbatim>\<open>nan\<close>; the model gives \<open>0\<close>).
\<close>

record ndarray =
  n_rows :: nat
  n_cols :: nat
  cells :: "real list list"

definition wf_ndarray :: "ndarray \<Rightarrow> bool" where
  "wf_ndarray X = (length (cells X) = n_rows X \<and> (\<forall>r \<in> set (cells X). length r = n_cols X))"

text \<open>
  The Python slice \<^verbatim>\<open>xs[a:b]\<close>: a negative bound counts from the end, and a bound outside
  the list is cut to it.
\<close>

definition slice_index :: "nat \<Rightarrow> int \<Rightarrow> nat" where
  "slice_index n i = (if i < 0 then nat (max (i + int n) 0) else nat (min i (int n)))"

definition py_slice :: "'a list \<Rightarrow> int \<Rightarrow> int \<Rightarrow> 'a list" where
  "py_slice xs a b =
     (let lo = slice_index (length xs) a; hi = slice_index (length xs) b
      in take (hi - lo) (drop lo xs))"

text \<open>\<^verbatim>\<open>np.mean\<close> and \<^verbatim>\<open>np.std\<close> (the population standard deviation) along a row.\<close>

definition np_mean :: "real list \<Rightarrow> real" where
  "np_mean xs = sum_list xs / real (length xs)"

definition np_std :: "real list \<Rightarrow> real" where
  "np_std xs = sqrt (np_mean (map (\<lambda>x. (x - np_mean xs)\<^sup>2) xs))"

subsection \<open>\<^verbatim>\<open>_transform\<close>\<close>

text \<open>
  The loop \<^verbatim>\<open>for j in range(n_intervals)\<close> of lines 194 to 201: \<open>transformed_x\<close> has one row
  per feature and one column per series, and turn \<open>j\<close> writes its rows \<open>3j\<close>, \<open>3j + 1\<close>
  and \<open>3j + 2\<close>. \<^verbatim>\<open>_slope\<close> (\<^verbatim>\<open>sktime.utils.slope_and_trend\<close>) is not part of the file;
  it is the parameter \<open>slope\<close>.
\<close>

fun transform_loop ::
  "(real list \<Rightarrow> real) \<Rightarrow> real list list \<Rightarrow> (int \<times> int) list \<Rightarrow> nat \<Rightarrow> real list list \<Rightarrow> real list list" where
  "transform_loop slope rows [] j transformed_x = transformed_x"
| "transform_loop slope rows (iv # ivs) j transformed_x =
     (let X_slice = map (\<lambda>r. py_slice r (fst iv) (snd iv)) rows;
          means = map np_mean X_slice;
          std_dev = map np_std X_slice;
          slopes = map slope X_slice
      in transform_loop slope rows ivs (Suc j)
           (transformed_x[3 * j := means, 3 * j + 1 := std_dev, 3 * j + 2 := slopes]))"

text \<open>
  \<^verbatim>\<open>transformed_x.T\<close>, with the number of rows of the result given: the transpose of an
  array of shape \<open>(0, n)\<close> has \<open>n\<close> empty rows.
\<close>

definition transposed :: "nat \<Rightarrow> real list list \<Rightarrow> real list list" where
  "transposed n rows = map (\<lambda>i. map (\<lambda>r. r ! i) rows) [0..<n]"

text \<open>
  \<^verbatim>\<open>np.empty\<close> leaves the cells unset; the model starts from zeros, and every row is
  written by the loop.
\<close>

definition transform :: "(real list \<Rightarrow> real) \<Rightarrow> ndarray \<Rightarrow> (int \<times> int) list \<Rightarrow> ndarray" where
  "transform slope X intervals =
     (let n_instances = n_rows X;
          n_intervals = length intervals;
          transformed_x = transform_loop slope (cells X) intervals 0
                            (replicate (3 * n_intervals) (replicate n_instances 0))
      in \<lparr>n_rows = n_instances, n_cols = 3 * n_intervals,
          cells = transposed n_instances transformed_x\<rparr>)"

section \<open>The forest\<close>

subsection \<open>Collaborators outside the file\<close>

text \<open>
  \<^verbatim>\<open>_tsf.py\<close> calls functions of other modules and libraries. They are the fields of an
  environment, with the types the calls need, and every theorem holds for every
  environment:
  \<^item> \<open>check_n_jobs\<close> is \<^verbatim>\<open>sktime.utils.validation.check_n_jobs\<close>;
  \<^item> \<open>np_random\<close> is numpy's global generator at the time of the call, and \<open>RandomState\<close>
    builds a generator from an integer seed (it raises for a seed it does not accept);
  \<^item> \<open>clone_estimator\<close> is \<^verbatim>\<open>_clone_estimator(self._estimator, rng)\<close>: it copies the base
    learner and seeds the copy from the generator, which it advances;
  \<^item> \<open>estimator_fit\<close> is the base learner's \<^verbatim>\<open>fit(features, labels)\<close>, and
    \<open>feature_importances\<close> reads \<^verbatim>\<open>feature_importances_\<close> of a fitted tree;
  \<^item> \<open>slope\<close> is \<^verbatim>\<open>sktime.utils.slope_and_trend._slope\<close> along a row.
  The type \<open>'t\<close> is the type of the learner's objects. Class labels are integers.
\<close>

record 't env =
  check_n_jobs :: "int option \<Rightarrow> error + int"
  np_random :: rng
  RandomState :: "int \<Rightarrow> error + rng"
  clone_estimator :: "rng \<Rightarrow> error + ('t \<times> rng)"
  estimator_fit :: "'t \<Rightarrow> ndarray \<Rightarrow> int list \<Rightarrow> error + 't"
  feature_importances :: "'t \<Rightarrow> real list"
  slope :: "real list \<Rightarrow> real"

text \<open>
  \<^verbatim>\<open>sklearn.utils.validation.check_random_state\<close> on a seed that is \<^verbatim>\<open>None\<close> or an
  integer: no seed gives the global generator, an integer a generator of its own.
\<close>

definition check_random_state :: "'t env \<Rightarrow> int option \<Rightarrow> error + rng" where
  "check_random_state env seed =
     (case seed of None \<Rightarrow> Inr (np_random env) | Some s \<Rightarrow> RandomState env s)"

text \<open>\<^verbatim>\<open>np.unique\<close>: the distinct values, sorted.\<close>

definition np_unique :: "int list \<Rightarrow> int list" where
  "np_unique y = sort (remdups y)"

subsection \<open>The object\<close>

text \<open>
  The attributes that \<^verbatim>\<open>__init__\<close> sets (its call of \<^verbatim>\<open>super().__init__\<close> hands the base
  learner to scikit-learn's forest, and the property \<^verbatim>\<open>_estimator\<close> reads it back: both are
  inside \<open>clone_estimator\<close>). The four curves are \<^verbatim>\<open>None\<close> until
  \<^verbatim>\<open>temporal_curves_\<close> has run. \<^verbatim>\<open>_is_fitted\<close> is \<open>is_fitted\<close>, and the
  underscore that ends a Python name is written as a prime: \<^verbatim>\<open>intervals_\<close> is \<open>intervals'\<close>.
\<close>

record 't forest =
  random_state :: "int option"
  n_estimators :: int
  min_interval :: int
  n_jobs :: "int option"
  n_classes :: int
  series_length :: int
  n_intervals :: int
  estimators' :: "'t list"
  intervals' :: "(int \<times> int) list list"
  classes' :: "int list"
  is_fitted :: bool
  mean_curve' :: "real list option"
  stdev_curve' :: "real list option"
  slope_curve' :: "real list option"
  n_intervals_wts_curve' :: "real list option"

definition init :: "int \<Rightarrow> int \<Rightarrow> int option \<Rightarrow> int option \<Rightarrow> 't forest" where
  "init min_interval' n_estimators' n_jobs' random_state' =
     \<lparr>random_state = random_state', n_estimators = n_estimators',
      min_interval = min_interval', n_jobs = n_jobs',
      n_classes = 0, series_length = 0, n_intervals = 0,
      estimators' = [], intervals' = [], classes' = [],
      is_fitted = False,
      mean_curve' = None, stdev_curve' = None, slope_curve' = None,
      n_intervals_wts_curve' = None\<rparr>"

text \<open>The defaults of \<^verbatim>\<open>__init__\<close>: \<^verbatim>\<open>min_interval=3, n_estimators=200, n_jobs=1, random_state=None\<close>.\<close>

definition default_forest :: "'t forest" where
  "default_forest = init 3 200 (Some 1) None"

subsection \<open>\<^verbatim>\<open>_fit\<close>\<close>

text \<open>
  The list comprehension of lines 115 to 118: one call of the sampler per member, all on
  the same generator, in member order.
\<close>

fun sample_members ::
  "nat \<Rightarrow> int \<Rightarrow> int \<Rightarrow> int \<Rightarrow> rng \<Rightarrow> error + ((int \<times> int) list list \<times> rng)" where
  "sample_members 0 K m L rng = Inr ([], rng)"
| "sample_members (Suc n) K m L rng =
     (case get_intervals K m L rng of
        Inl e \<Rightarrow> Inl e
      | Inr (ivs, rng1) \<Rightarrow>
          (case sample_members n K m L rng1 of
             Inl e \<Rightarrow> Inl e
           | Inr (rest, rng2) \<Rightarrow> Inr (ivs # rest, rng2)))"

text \<open>\<^verbatim>\<open>_fit_estimator\<close>, lines 218 to 221.\<close>

definition fit_estimator ::
  "'t env \<Rightarrow> 't \<Rightarrow> ndarray \<Rightarrow> int list \<Rightarrow> (int \<times> int) list \<Rightarrow> error + 't" where
  "fit_estimator env estimator X y intervals =
     (let transformed_x = transform (slope env) X intervals
      in estimator_fit env estimator transformed_x y)"

text \<open>
  The generator of lines 121 to 124 yields, for member \<open>i\<close>, a fresh clone seeded from
  the generator and the task of fitting it on \<open>intervals_[i]\<close>. The outcome of a member
  is its fitted tree or the exception of its task; a clone that raises ends the
  generator, and its exception is the last outcome.
\<close>

fun member_outcomes ::
  "'t env \<Rightarrow> ndarray \<Rightarrow> int list \<Rightarrow> (int \<times> int) list list \<Rightarrow> rng \<Rightarrow> (error + 't) list" where
  "member_outcomes env X y [] rng = []"
| "member_outcomes env X y (ivs # rest) rng =
     (case clone_estimator env rng of
        Inl e \<Rightarrow> [Inl e]
      | Inr (estimator, rng1) \<Rightarrow>
          fit_estimator env estimator X y ivs # member_outcomes env X y rest rng1)"

text \<open>
  \<^verbatim>\<open>joblib.Parallel(n_jobs)(tasks)\<close> returns the results in task order, whichever worker
  ends first, and raises when a task raises; \<open>n_jobs = 0\<close> is refused with \<^verbatim>\<open>ValueError\<close>.
  When several members fail, the exception that reaches the caller depends on the
  workers: \<open>sched\<close>, the order in which the members are seen to end, stands for the
  scheduling, and the exception of the first failed member in that order is raised
  (members that \<open>sched\<close> leaves out follow in member order, which is the order of a
  sequential run).
\<close>

definition Parallel :: "nat list \<Rightarrow> int \<Rightarrow> (error + 't) list \<Rightarrow> error + 't list" where
  "Parallel sched n_jobs' outcomes =
     (if n_jobs' = 0 then Inl ValueError
      else (case List.find isl
                   (map (\<lambda>i. outcomes ! i) (filter (\<lambda>i. i < length outcomes) sched) @ outcomes) of
              None \<Rightarrow> Inr (map projr outcomes)
            | Some r \<Rightarrow> Inl (projl r)))"

text \<open>
  \<^verbatim>\<open>_fit\<close>, lines 99 to 128, on the panel with its channel axis squeezed away (\<open>X\<close> is the
  array of shape \<open>(n_instances, series_length)\<close>). The result is the exception, if one
  was raised, and the object as the call leaves it: an attribute assigned before the
  exception keeps its new value. \<^verbatim>\<open>int(math.sqrt(L))\<close> is the floor of the real square
  root.
\<close>

definition fit ::
  "'t env \<Rightarrow> nat list \<Rightarrow> 't forest \<Rightarrow> ndarray \<Rightarrow> int list \<Rightarrow> error option \<times> 't forest" where
  "fit env sched self X y =
     (let self = self\<lparr>series_length := int (n_cols X)\<rparr> in
      case check_n_jobs env (n_jobs self) of
        Inl e \<Rightarrow> (Some e, self)
      | Inr n_jobs' \<Rightarrow>
      (case check_random_state env (random_state self) of
        Inl e \<Rightarrow> (Some e, self)
      | Inr rng \<Rightarrow>
      (let self = self\<lparr>n_classes := int (length (np_unique y))\<rparr>;
           self = self\<lparr>classes' := np_unique y\<rparr>;
           self = self\<lparr>n_intervals := \<lfloor>sqrt (real_of_int (series_length self))\<rfloor>\<rparr>;
           self = (if n_intervals self = 0 then self\<lparr>n_intervals := 1\<rparr> else self);
           self = (if series_length self < min_interval self
                   then self\<lparr>min_interval := series_length self\<rparr> else self)
       in case sample_members (nat (n_estimators self)) (n_intervals self)
                 (min_interval self) (series_length self) rng of
            Inl e \<Rightarrow> (Some e, self)
          | Inr (sampled, rng1) \<Rightarrow>
          (let self = self\<lparr>intervals' := sampled\<rparr> in
           case Parallel sched n_jobs' (member_outcomes env X y (intervals' self) rng1) of
             Inl e \<Rightarrow> (Some e, self)
           | Inr fitted \<Rightarrow>
               (None, self\<lparr>estimators' := fitted, is_fitted := True\<rparr>)))))"

subsection \<open>\<^verbatim>\<open>_get_fitted_params\<close>\<close>

text \<open>Lines 130 to 135: the dictionary of the three fitted attributes, as a triple.\<close>

definition get_fitted_params ::
  "'t forest \<Rightarrow> error + (int list \<times> (int \<times> int) list list \<times> 't list)" where
  "get_fitted_params self = Inr (classes' self, intervals' self, estimators' self)"

subsection \<open>\<^verbatim>\<open>temporal_curves_\<close>\<close>

text \<open>
  \<^verbatim>\<open>np.zeros(n)\<close> raises on a negative length. \<^verbatim>\<open>np.put(a, range(lo, hi), v)\<close> writes \<open>v\<close>
  at the indices of the range; an index outside \<open>[-n, n)\<close> raises \<^verbatim>\<open>IndexError\<close>, and a
  negative index counts from the end. \<^verbatim>\<open>np.where(mask, v, 0)\<close> is \<open>v\<close> where the mask is
  not zero. \<^verbatim>\<open>a[k]\<close> on an array, for \<open>k \<ge> 0\<close>, raises \<^verbatim>\<open>IndexError\<close> beyond the end.
\<close>

definition np_zeros :: "int \<Rightarrow> error + real list" where
  "np_zeros n = (if n < 0 then Inl ValueError else Inr (replicate (nat n) 0))"

definition np_put_range :: "real list \<Rightarrow> int \<Rightarrow> int \<Rightarrow> real \<Rightarrow> error + real list" where
  "np_put_range a lo hi v =
     (let n = int (length a) in
      if list_all (\<lambda>i. - n \<le> i \<and> i < n) [lo..hi - 1]
      then Inr (fold (\<lambda>i b. b[nat (if i < 0 then i + n else i) := v]) [lo..hi - 1] a)
      else Inl IndexError)"

definition np_where :: "real list \<Rightarrow> real \<Rightarrow> real \<Rightarrow> real list" where
  "np_where condition v w = map (\<lambda>b. if b \<noteq> 0 then v else w) condition"

definition getitem :: "real list \<Rightarrow> nat \<Rightarrow> error + real" where
  "getitem a k = (if k < length a then Inr (a ! k) else Inl IndexError)"

text \<open>\<^verbatim>\<open>curve += term\<close> on an attribute that holds an array: the sum, cell by cell.\<close>

definition iadd :: "real list option \<Rightarrow> real list \<Rightarrow> real list option" where
  "iadd curve term' = map_option (\<lambda>c. map2 (+) c term') curve"

text \<open>
  The body of the inner loop, lines 159 to 171, for the interval \<open>interval\<close> at position
  \<open>i_int\<close> of a member: the mask, then the four additions in the order of the source. An
  exception leaves the additions made before it in place.
\<close>

definition interval_update ::
  "'t env \<Rightarrow> 't \<Rightarrow> nat \<Rightarrow> int \<times> int \<Rightarrow> 't forest \<Rightarrow> error option \<times> 't forest" where
  "interval_update env estimator i_int interval self =
     (case np_zeros (series_length self) of
        Inl e \<Rightarrow> (Some e, self)
      | Inr zeros \<Rightarrow>
      (case np_put_range zeros (fst interval) (snd interval) 1 of
        Inl e \<Rightarrow> (Some e, self)
      | Inr interval_mask \<Rightarrow>
      (let self = self\<lparr>n_intervals_wts_curve' :=
                    iadd (n_intervals_wts_curve' self) (np_where interval_mask 1 0)\<rparr> in
       case getitem (feature_importances env estimator) (3 * i_int) of
         Inl e \<Rightarrow> (Some e, self)
       | Inr w0 \<Rightarrow>
       (let self = self\<lparr>mean_curve' := iadd (mean_curve' self) (np_where interval_mask w0 0)\<rparr> in
        case getitem (feature_importances env estimator) (3 * i_int + 1) of
          Inl e \<Rightarrow> (Some e, self)
        | Inr w1 \<Rightarrow>
        (let self = self\<lparr>stdev_curve' := iadd (stdev_curve' self) (np_where interval_mask w1 0)\<rparr> in
         case getitem (feature_importances env estimator) (3 * i_int + 2) of
           Inl e \<Rightarrow> (Some e, self)
         | Inr w2 \<Rightarrow>
             (None, self\<lparr>slope_curve' :=
                      iadd (slope_curve' self) (np_where interval_mask w2 0)\<rparr>))))))"

text \<open>\<^verbatim>\<open>for i_int, interval in enumerate(intervals)\<close>, from position \<open>i_int\<close> on.\<close>

fun intervals_pass ::
  "'t env \<Rightarrow> 't \<Rightarrow> nat \<Rightarrow> (int \<times> int) list \<Rightarrow> 't forest \<Rightarrow> error option \<times> 't forest" where
  "intervals_pass env estimator i_int [] self = (None, self)"
| "intervals_pass env estimator i_int (interval # rest) self =
     (case interval_update env estimator i_int interval self of
        (Some e, self1) \<Rightarrow> (Some e, self1)
      | (None, self1) \<Rightarrow> intervals_pass env estimator (Suc i_int) rest self1)"

text \<open>\<^verbatim>\<open>for estimator, intervals in zip(self.estimators_, self.intervals_)\<close>.\<close>

fun members_pass ::
  "'t env \<Rightarrow> ('t \<times> (int \<times> int) list) list \<Rightarrow> 't forest \<Rightarrow> error option \<times> 't forest" where
  "members_pass env [] self = (None, self)"
| "members_pass env ((estimator, intervals) # rest) self =
     (case intervals_pass env estimator 0 intervals self of
        (Some e, self1) \<Rightarrow> (Some e, self1)
      | (None, self1) \<Rightarrow> members_pass env rest self1)"

text \<open>
  Lines 152 to 171. The four \<^verbatim>\<open>np.zeros\<close> have the same argument, so the first one
  raises or none does.
\<close>

definition temporal_curves' :: "'t env \<Rightarrow> 't forest \<Rightarrow> error option \<times> 't forest" where
  "temporal_curves' env self =
     (case np_zeros (series_length self) of
        Inl e \<Rightarrow> (Some e, self)
      | Inr zeros \<Rightarrow>
          (let self = self\<lparr>mean_curve' := Some zeros\<rparr>;
               self = self\<lparr>stdev_curve' := Some zeros\<rparr>;
               self = self\<lparr>slope_curve' := Some zeros\<rparr>;
               self = self\<lparr>n_intervals_wts_curve' := Some zeros\<rparr>
           in members_pass env (zip (estimators' self) (intervals' self)) self))"

subsection \<open>Names for the values of \<^verbatim>\<open>_fit\<close>\<close>

text \<open>
  The values that lines 109 to 113 compute, and the object as line 113 leaves it.
\<close>

definition default_n_intervals :: "int \<Rightarrow> int" where
  "default_n_intervals L = (if \<lfloor>sqrt (real_of_int L)\<rfloor> = 0 then 1 else \<lfloor>sqrt (real_of_int L)\<rfloor>)"

definition clamped_min_interval :: "int \<Rightarrow> int \<Rightarrow> int" where
  "clamped_min_interval m L = (if L < m then L else m)"

definition prepared :: "'t forest \<Rightarrow> ndarray \<Rightarrow> int list \<Rightarrow> 't forest" where
  "prepared f X y =
     f\<lparr>series_length := int (n_cols X),
       n_classes := int (length (np_unique y)),
       classes' := np_unique y,
       n_intervals := default_n_intervals (int (n_cols X)),
       min_interval := clamped_min_interval (min_interval f) (int (n_cols X))\<rparr>"

section \<open>The curves of the specification\<close>

text \<open>
  The curves as section 4.5 of the specification describes them: a time index \<open>t\<close> is
  covered by an interval when \<open>start \<le> t < end\<close>; the coverage curve counts, over all
  members, the intervals that cover \<open>t\<close>; the curve of the statistic \<open>c\<close> (0 for the
  mean, 1 for the standard deviation, 2 for the slope) adds, over all members and all
  their intervals \<open>j\<close> that cover \<open>t\<close>, the importance at offset \<open>3j + c\<close>. Nothing is
  divided or scaled. In \<open>member_importance\<close> the intervals are numbered from \<open>i\<close> on; a
  member's own intervals are numbered from \<open>0\<close>.
\<close>

definition covers :: "int \<times> int \<Rightarrow> nat \<Rightarrow> bool" where
  "covers interval t = (fst interval \<le> int t \<and> int t < snd interval)"

definition member_importance :: "real list \<Rightarrow> nat \<Rightarrow> nat \<Rightarrow> (int \<times> int) list \<Rightarrow> nat \<Rightarrow> real" where
  "member_importance importances c i ivs t =
     sum_list (map (\<lambda>(j, iv). if covers iv t then importances ! (3 * j + c) else 0)
                   (enumerate i ivs))"

definition importance_curve ::
  "'t env \<Rightarrow> nat \<Rightarrow> ('t \<times> (int \<times> int) list) list \<Rightarrow> nat \<Rightarrow> real" where
  "importance_curve env c members t =
     sum_list (map (\<lambda>(est, ivs). member_importance (feature_importances env est) c 0 ivs t)
                   members)"

definition member_coverage :: "(int \<times> int) list \<Rightarrow> nat \<Rightarrow> real" where
  "member_coverage ivs t = sum_list (map (\<lambda>iv. if covers iv t then 1 else 0) ivs)"

definition coverage_curve :: "('t \<times> (int \<times> int) list) list \<Rightarrow> nat \<Rightarrow> real" where
  "coverage_curve members t =
     sum_list (map (\<lambda>(est, ivs). member_coverage ivs t) members)"

subsection \<open>Objects that were never fitted\<close>

text \<open>
  The objects on which fit has never completed: a new object, and what a call of fit
  that raised or a call of \<^verbatim>\<open>temporal_curves_\<close> leaves of such an object.
\<close>

inductive never_fitted :: "'t env \<Rightarrow> 't forest \<Rightarrow> bool" for env :: "'t env" where
  new: "never_fitted env (init mi ne nj rs)"
| failed_fit: "never_fitted env f \<Longrightarrow> fit env sched f X y = (Some e, f') \<Longrightarrow> never_fitted env f'"
| curves_call: "never_fitted env f \<Longrightarrow> temporal_curves' env f = (r, f') \<Longrightarrow> never_fitted env f'"

subsection \<open>Names for the states of \<^verbatim>\<open>temporal_curves_\<close>\<close>

text \<open>
  \<open>with_curves f g\<close> is \<open>f\<close> with the four curves of \<open>g\<close>; \<open>same_curves\<close> holds of two objects
  with the same series length and the same curves; \<open>curves f n\<close> is \<open>f\<close> with four curves of
  length \<open>n\<close> given by their values at each index.
\<close>

definition with_curves :: "'t forest \<Rightarrow> 't forest \<Rightarrow> 't forest" where
  "with_curves f g =
     f\<lparr>mean_curve' := mean_curve' g, stdev_curve' := stdev_curve' g,
       slope_curve' := slope_curve' g, n_intervals_wts_curve' := n_intervals_wts_curve' g\<rparr>"

definition same_curves :: "'t forest \<Rightarrow> 't forest \<Rightarrow> bool" where
  "same_curves f g =
     (series_length f = series_length g \<and> mean_curve' f = mean_curve' g \<and>
      stdev_curve' f = stdev_curve' g \<and> slope_curve' f = slope_curve' g \<and>
      n_intervals_wts_curve' f = n_intervals_wts_curve' g)"

text \<open>The object as the four assignments of lines 152 to 155 leave it.\<close>

definition zeroed :: "'t forest \<Rightarrow> 't forest" where
  "zeroed f =
     f\<lparr>mean_curve' := Some (replicate (nat (series_length f)) 0),
       stdev_curve' := Some (replicate (nat (series_length f)) 0),
       slope_curve' := Some (replicate (nat (series_length f)) 0),
       n_intervals_wts_curve' := Some (replicate (nat (series_length f)) 0)\<rparr>"

definition curves :: "'t forest \<Rightarrow> nat \<Rightarrow> (nat \<Rightarrow> real) \<Rightarrow> (nat \<Rightarrow> real) \<Rightarrow> (nat \<Rightarrow> real) \<Rightarrow> (nat \<Rightarrow> real) \<Rightarrow> 't forest" where
  "curves f n Gm Gs Gl Gw =
     f\<lparr>mean_curve' := Some (map Gm [0..<n]), stdev_curve' := Some (map Gs [0..<n]),
       slope_curve' := Some (map Gl [0..<n]), n_intervals_wts_curve' := Some (map Gw [0..<n])\<rparr>"

section \<open>A stub learner and a panel for concrete runs\<close>

text \<open>
  A deterministic learner in place of the decision tree: its objects are importance
  vectors, a clone draws one number from the generator, and a fit returns the vector
  \<open>0, 1, 2, \<dots>\<close> with one entry per feature column. A seed \<open>s\<close> gives the generator
  \<open>s, s + 1, s + 2, \<dots>\<close>. The panel has four series of length eight.
\<close>

definition stub_env :: "(real list) env" where
  "stub_env =
     \<lparr>check_n_jobs = (\<lambda>n. case n of None \<Rightarrow> Inr 1 | Some k \<Rightarrow> Inr k),
      np_random = (\<lambda>_. 0),
      RandomState = (\<lambda>s. Inr (\<lambda>i. i + nat s)),
      clone_estimator = (\<lambda>g. Inr ([], (\<lambda>i. g (Suc i)))),
      estimator_fit = (\<lambda>t F y. Inr (map real [0..<n_cols F])),
      feature_importances = (\<lambda>t. t),
      slope = (\<lambda>_. 0)\<rparr>"

definition panel8 :: ndarray where
  "panel8 = \<lparr>n_rows = 4, n_cols = 8, cells = replicate 4 [1, 2, 3, 4, 5, 6, 7, 8]\<rparr>"

text \<open>A panel of two series of length two, shorter than the default minimum interval.\<close>

definition panel2 :: ndarray where
  "panel2 = \<lparr>n_rows = 2, n_cols = 2, cells = [[1, 2], [3, 4]]\<rparr>"

text \<open>The forest that the stub learner fits on the panel of length eight.\<close>

definition fitted8 :: "real list forest" where
  "fitted8 = snd (fit stub_env [] (init 3 3 (Some 1) (Some 0)) panel8 [0, 1, 0, 1])"

text \<open>The empty panel: no series, of length zero.\<close>

definition panel0 :: ndarray where
  "panel0 = \<lparr>n_rows = 0, n_cols = 0, cells = []\<rparr>"

section \<open>Facts about the model\<close>

subsection \<open>Facts about one draw\<close>

lemma randint_Inr:
  "0 < high \<Longrightarrow> randint high s = Inr (int (s 0) mod high, (\<lambda>i. s (Suc i)))"
  by (simp add: randint_def)

lemma randint_range:
  assumes "randint high s = Inr (v, s')"
  shows "0 \<le> v \<and> v < high"
proof -
  from assms have h: "0 < high" and v: "v = int (s 0) mod high"
    by (auto simp: randint_def split: if_splits)
  from h v show ?thesis by simp
qed

lemma randint_nonpos: "high \<le> 0 \<Longrightarrow> randint high s = Inl ValueError"
  by (simp add: randint_def)

lemma interval_step_total:
  assumes "1 \<le> m" and "m < L"
  shows "\<exists>iv rng'. interval_step m L rng = Inr (iv, rng')"
proof -
  from assms have "0 < L - m" by simp
  then obtain s r1 where d1: "randint (L - m) rng = Inr (s, r1)"
    by (simp add: randint_def)
  from randint_range [OF d1] assms have "0 < L - s - 1" by simp
  then obtain l r2 where d2: "randint (L - s - 1) r1 = Inr (l, r2)"
    by (simp add: randint_def)
  from d1 d2 show ?thesis by (simp add: interval_step_def)
qed

lemma interval_step_draws:
  assumes "interval_step m L rng = Inr ((s, e), rng')"
  obtains r1 l where "randint (L - m) rng = Inr (s, r1)"
    and "randint (L - s - 1) r1 = Inr (l, rng')"
    and "e = s + clamp_length m l"
  using assms
  by (auto simp: interval_step_def split: sum.splits prod.splits)

lemma interval_step_bounds:
  assumes m: "1 \<le> m" and step: "interval_step m L rng = Inr ((s, e), rng')"
  shows "0 \<le> s \<and> s < e \<and> m \<le> e - s \<and> e \<le> L - 1"
proof -
  from step obtain r1 l where d1: "randint (L - m) rng = Inr (s, r1)"
    and d2: "randint (L - s - 1) r1 = Inr (l, rng')"
    and e: "e = s + clamp_length m l"
    by (rule interval_step_draws)
  from randint_range [OF d1] have s: "0 \<le> s" "s < L - m" by simp_all
  from randint_range [OF d2] have l: "0 \<le> l" "l < L - s - 1" by simp_all
  show ?thesis
  proof (cases "l < m")
    case True
    with e have "e = s + m" by (simp add: clamp_length_def)
    with s m show ?thesis by simp
  next
    case False
    with e have "e = s + l" by (simp add: clamp_length_def)
    with s l m False show ?thesis by simp
  qed
qed

lemma intervals_loop_total:
  assumes "1 \<le> m" and "m < L"
  shows "\<exists>ivs rng'. intervals_loop k m L rng = Inr (ivs, rng')"
proof (induction k arbitrary: rng)
  case 0
  show ?case by simp
next
  case (Suc k)
  from interval_step_total [OF assms] obtain iv r1
    where st: "interval_step m L rng = Inr (iv, r1)" by blast
  from Suc.IH obtain ivs r2 where "intervals_loop k m L r1 = Inr (ivs, r2)" by blast
  with st show ?case by simp
qed

lemma intervals_loop_length:
  "intervals_loop k m L rng = Inr (ivs, rng') \<Longrightarrow> length ivs = k"
proof (induction k arbitrary: rng ivs)
  case 0
  then show ?case by simp
next
  case (Suc k)
  then show ?case
    by (auto split: sum.splits prod.splits)
qed

lemma intervals_loop_bounds:
  assumes m: "1 \<le> m"
  shows "intervals_loop k m L rng = Inr (ivs, rng') \<Longrightarrow> (s, e) \<in> set ivs \<Longrightarrow>
         0 \<le> s \<and> s < e \<and> m \<le> e - s \<and> e \<le> L - 1"
proof (induction k arbitrary: rng ivs)
  case 0
  then show ?case by simp
next
  case (Suc k)
  from Suc.prems(1) obtain iv r1 rest
    where st: "interval_step m L rng = Inr (iv, r1)"
      and lp: "intervals_loop k m L r1 = Inr (rest, rng')"
      and ivs: "ivs = iv # rest"
    by (auto split: sum.splits prod.splits)
  from Suc.prems(2) ivs consider "(s, e) = iv" | "(s, e) \<in> set rest" by auto
  then show ?case
  proof cases
    case 1
    with st have "interval_step m L rng = Inr ((s, e), r1)" by simp
    from interval_step_bounds [OF m this] show ?thesis .
  next
    case 2
    from Suc.IH [OF lp 2] show ?thesis .
  qed
qed

subsection \<open>Facts about the feature extractor\<close>

lemma py_slice_in_range:
  assumes "0 \<le> a" and "a \<le> b" and "b \<le> int (length xs)"
  shows "py_slice xs a b = map (\<lambda>t. xs ! t) [nat a..<nat b]"
proof -
  from assms have lo: "slice_index (length xs) a = nat a"
    and hi: "slice_index (length xs) b = nat b"
    by (simp_all add: slice_index_def min_def)
  from assms have len: "nat b \<le> length xs" by simp
  have "take (nat b - nat a) (drop (nat a) xs) = map (\<lambda>t. xs ! t) [nat a..<nat b]"
  proof (rule nth_equalityI)
    show "length (take (nat b - nat a) (drop (nat a) xs)) = length (map (\<lambda>t. xs ! t) [nat a..<nat b])"
      using len by simp
  next
    fix i assume "i < length (take (nat b - nat a) (drop (nat a) xs))"
    then show "take (nat b - nat a) (drop (nat a) xs) ! i = map (\<lambda>t. xs ! t) [nat a..<nat b] ! i"
      using len by simp
  qed
  then show ?thesis by (simp add: py_slice_def lo hi)
qed

lemma transform_loop_length:
  "length (transform_loop sl rows ivs j T) = length T"
  by (induction ivs arbitrary: j T) (simp_all add: Let_def)

lemma transform_loop_below:
  "i < 3 * j \<Longrightarrow> transform_loop sl rows ivs j T ! i = T ! i"
  by (induction ivs arbitrary: j T) (simp_all add: Let_def)

lemma transform_loop_nth:
  assumes "3 * (j + length ivs) \<le> length T" and "k < length ivs" and "c < 3"
  shows "transform_loop sl rows ivs j T ! (3 * (j + k) + c) = map ((if c = 0 then np_mean else if c = 1 then np_std else sl) \<circ>
              (\<lambda>r. py_slice r (fst (ivs ! k)) (snd (ivs ! k)))) rows"
  using assms
proof (induction ivs arbitrary: j T k)
  case Nil
  then show ?case by simp
next
  case (Cons iv ivs)
  show ?case
  proof (cases k)
    case 0
    from Cons.prems have "3 * j + c < 3 * Suc j" "3 * j + 2 < length T" by simp_all
    with Cons.prems 0 show ?thesis
      by (auto simp: Let_def transform_loop_below nth_list_update)
  next
    case (Suc k')
    with Cons.prems have "3 * (Suc j + length ivs) \<le> length T" "k' < length ivs" by simp_all
    from Cons.IH [OF _ this(2) Cons.prems(3), of "Suc j"] this(1) Suc show ?thesis
      by (simp add: Let_def)
  qed
qed

lemma transposed_nth:
  "i < n \<Longrightarrow> c < length T \<Longrightarrow> transposed n T ! i ! c = T ! c ! i"
  by (simp add: transposed_def)

lemma transposed_wf:
  "length (transposed n T) = n \<and> (\<forall>r \<in> set (transposed n T). length r = length T)"
  by (auto simp: transposed_def)

lemma transform_cells:
  "cells (transform sl X intervals) =
     transposed (n_rows X) (transform_loop sl (cells X) intervals 0
        (replicate (3 * length intervals) (replicate (n_rows X) 0)))"
  by (simp add: transform_def Let_def)

lemma transform_cell:
  assumes wf: "wf_ndarray X" and i: "i < n_rows X" and j: "j < length intervals" and c: "c < 3"
  shows "cells (transform sl X intervals) ! i ! (3 * j + c) =
           (if c = 0 then np_mean else if c = 1 then np_std else sl)
             (py_slice (cells X ! i) (fst (intervals ! j)) (snd (intervals ! j)))"
proof -
  let ?T0 = "replicate (3 * length intervals) (replicate (n_rows X) (0::real))"
  let ?T = "transform_loop sl (cells X) intervals 0 ?T0"
  have lenT: "length ?T = 3 * length intervals"
    by (simp add: transform_loop_length)
  from j c have col: "3 * j + c < length ?T" unfolding lenT by simp
  have row: "?T ! (3 * (0 + j) + c) =
      map ((if c = 0 then np_mean else if c = 1 then np_std else sl) \<circ>
              (\<lambda>r. py_slice r (fst (intervals ! j)) (snd (intervals ! j)))) (cells X)"
    by (rule transform_loop_nth) (use j c in simp_all)
  from wf i have ilen: "i < length (cells X)" by (simp add: wf_ndarray_def)
  have "cells (transform sl X intervals) ! i ! (3 * j + c) = ?T ! (3 * j + c) ! i"
    unfolding transform_cells using i col by (rule transposed_nth)
  also have "\<dots> = (if c = 0 then np_mean else if c = 1 then np_std else sl)
             (py_slice (cells X ! i) (fst (intervals ! j)) (snd (intervals ! j)))"
    using row ilen by simp
  finally show ?thesis .
qed

subsection \<open>Facts about \<^verbatim>\<open>_fit\<close>\<close>

lemma fit_unfold:
  "fit env sched f X y =
     (case check_n_jobs env (n_jobs f) of
        Inl e \<Rightarrow> (Some e, f\<lparr>series_length := int (n_cols X)\<rparr>)
      | Inr nj \<Rightarrow>
      (case check_random_state env (random_state f) of
        Inl e \<Rightarrow> (Some e, f\<lparr>series_length := int (n_cols X)\<rparr>)
      | Inr rng \<Rightarrow>
      (case sample_members (nat (n_estimators f)) (default_n_intervals (int (n_cols X)))
              (clamped_min_interval (min_interval f) (int (n_cols X))) (int (n_cols X)) rng of
         Inl e \<Rightarrow> (Some e, prepared f X y)
       | Inr (sampled, rng1) \<Rightarrow>
         (case Parallel sched nj (member_outcomes env X y sampled rng1) of
            Inl e \<Rightarrow> (Some e, (prepared f X y)\<lparr>intervals' := sampled\<rparr>)
          | Inr fitted \<Rightarrow>
              (None, (prepared f X y)\<lparr>intervals' := sampled, estimators' := fitted,
                       is_fitted := True\<rparr>)))))"
  by (simp add: fit_def Let_def prepared_def default_n_intervals_def clamped_min_interval_def
      split: sum.splits prod.splits)

lemma fit_NoneE:
  assumes "fit env sched f X y = (None, r)"
  obtains nj rng sampled rng1 fitted where
    "check_n_jobs env (n_jobs f) = Inr nj"
    "check_random_state env (random_state f) = Inr rng"
    "sample_members (nat (n_estimators f)) (default_n_intervals (int (n_cols X)))
       (clamped_min_interval (min_interval f) (int (n_cols X))) (int (n_cols X)) rng = Inr (sampled, rng1)"
    "Parallel sched nj (member_outcomes env X y sampled rng1) = Inr fitted"
    "r = (prepared f X y)\<lparr>intervals' := sampled, estimators' := fitted, is_fitted := True\<rparr>"
  using assms unfolding fit_unfold
  by (auto split: sum.splits prod.splits)

lemma default_n_intervals_pos: "1 \<le> default_n_intervals (int n)"
proof -
  have "0 \<le> \<lfloor>sqrt (real_of_int (int n))\<rfloor>" by simp
  then show ?thesis unfolding default_n_intervals_def by presburger
qed

lemma get_intervals_length:
  assumes "get_intervals K m L rng = Inr (ivs, rng')"
  shows "0 \<le> K \<and> length ivs = nat K"
proof -
  from assms have K: "0 \<le> K" and "intervals_loop (nat K) m L rng = Inr (ivs, rng')"
    by (auto simp: get_intervals_def split: if_splits)
  from intervals_loop_length [OF this(2)] K show ?thesis by simp
qed

lemma sample_members_length:
  "sample_members n K m L rng = Inr (ivss, rng') \<Longrightarrow> length ivss = n"
  by (induction n arbitrary: rng ivss) (auto split: sum.splits prod.splits)

lemma sample_members_elem:
  "sample_members n K m L rng = Inr (ivss, rng') \<Longrightarrow> ivs \<in> set ivss \<Longrightarrow>
     \<exists>r r'. get_intervals K m L r = Inr (ivs, r')"
proof (induction n arbitrary: rng ivss)
  case 0
  then show ?case by simp
next
  case (Suc n)
  from Suc.prems(1) obtain first r1 rest
    where g: "get_intervals K m L rng = Inr (first, r1)"
      and lp: "sample_members n K m L r1 = Inr (rest, rng')"
      and ivss: "ivss = first # rest"
    by (auto split: sum.splits prod.splits)
  from Suc.prems(2) ivss consider "ivs = first" | "ivs \<in> set rest" by auto
  then show ?case
  proof cases
    case 1
    with g show ?thesis by blast
  next
    case 2
    from Suc.IH [OF lp 2] show ?thesis .
  qed
qed

lemma Parallel_Inr:
  assumes "Parallel sched nj outcomes = Inr fitted"
  shows "nj \<noteq> 0 \<and> (\<forall>r \<in> set outcomes. \<not> isl r) \<and> fitted = map projr outcomes"
proof -
  from assms have nj: "nj \<noteq> 0"
    by (auto simp: Parallel_def split: if_splits)
  with assms have
    "List.find isl (map (\<lambda>i. outcomes ! i) (filter (\<lambda>i. i < length outcomes) sched) @ outcomes) = None"
    and f: "fitted = map projr outcomes"
    by (auto simp: Parallel_def split: option.splits)
  then have "\<forall>r \<in> set outcomes. \<not> isl r"
    by (auto simp: find_None_iff)
  with nj f show ?thesis by simp
qed

lemma Parallel_all_ok:
  assumes "nj \<noteq> 0" and "\<forall>r \<in> set outcomes. \<not> isl r"
  shows "Parallel sched nj outcomes = Inr (map projr outcomes)"
proof -
  have "\<forall>r \<in> set (map (\<lambda>i. outcomes ! i) (filter (\<lambda>i. i < length outcomes) sched) @ outcomes). \<not> isl r"
    using assms(2) by auto
  then have
    "List.find isl (map (\<lambda>i. outcomes ! i) (filter (\<lambda>i. i < length outcomes) sched) @ outcomes) = None"
    unfolding find_None_iff by blast
  with assms(1) show ?thesis by (simp add: Parallel_def)
qed

lemma member_outcomes_all_ok:
  "\<forall>r \<in> set (member_outcomes env X y ivss rng). \<not> isl r \<Longrightarrow>
     length (member_outcomes env X y ivss rng) = length ivss"
  by (induction ivss arbitrary: rng) (auto split: sum.splits prod.splits)

lemma np_unique_props:
  "set (np_unique y) = set y \<and> distinct (np_unique y) \<and> sorted (np_unique y)"
  by (simp add: np_unique_def)

lemma fit_None_shape:
  assumes "fit env sched f X y = (None, r)"
  shows "length (estimators' r) = nat (n_estimators f) \<and>
         length (intervals' r) = nat (n_estimators f) \<and>
         (\<forall>ivs \<in> set (intervals' r). int (length ivs) = default_n_intervals (int (n_cols X))) \<and>
         classes' r = np_unique y"
proof -
  from assms obtain nj rng sampled rng1 fitted where
    smp: "sample_members (nat (n_estimators f)) (default_n_intervals (int (n_cols X)))
       (clamped_min_interval (min_interval f) (int (n_cols X))) (int (n_cols X)) rng = Inr (sampled, rng1)"
    and par: "Parallel sched nj (member_outcomes env X y sampled rng1) = Inr fitted"
    and r: "r = (prepared f X y)\<lparr>intervals' := sampled, estimators' := fitted, is_fitted := True\<rparr>"
    by (rule fit_NoneE)
  from sample_members_length [OF smp] have ls: "length sampled = nat (n_estimators f)" .
  from Parallel_Inr [OF par] have ok: "\<forall>r \<in> set (member_outcomes env X y sampled rng1). \<not> isl r"
    and fm: "fitted = map projr (member_outcomes env X y sampled rng1)" by simp_all
  from member_outcomes_all_ok [OF ok] fm ls have lf: "length fitted = nat (n_estimators f)"
    by simp
  have each: "\<forall>ivs \<in> set sampled. int (length ivs) = default_n_intervals (int (n_cols X))"
  proof
    fix ivs assume "ivs \<in> set sampled"
    from sample_members_elem [OF smp this] obtain g g' where
      "get_intervals (default_n_intervals (int (n_cols X)))
         (clamped_min_interval (min_interval f) (int (n_cols X))) (int (n_cols X)) g = Inr (ivs, g')"
      by blast
    from get_intervals_length [OF this]
    show "int (length ivs) = default_n_intervals (int (n_cols X))" by simp
  qed
  from r ls lf each show ?thesis by (simp add: prepared_def)
qed

lemma floor_sqrt_eq:
  assumes "0 \<le> k" and "k * k \<le> n" and "n < (k + 1) * (k + 1)"
  shows "\<lfloor>sqrt (real_of_int n)\<rfloor> = k"
proof (rule floor_unique)
  from assms(2) have "real_of_int (k * k) \<le> real_of_int n" by (simp only: of_int_le_iff)
  then have "(real_of_int k)\<^sup>2 \<le> real_of_int n" by (simp add: power2_eq_square)
  then show "real_of_int k \<le> sqrt (real_of_int n)" by (rule real_le_rsqrt)
next
  from assms(3) have "real_of_int n < real_of_int ((k + 1) * (k + 1))"
    by (simp only: of_int_less_iff)
  then have "real_of_int n < (real_of_int k + 1)\<^sup>2" by (simp add: power2_eq_square)
  moreover from assms(1) have "0 \<le> real_of_int k + 1" by simp
  ultimately show "sqrt (real_of_int n) < real_of_int k + 1" by (simp add: real_less_lsqrt)
qed

subsection \<open>The stub learner on the panel of length eight\<close>

lemma sqrt8: "\<lfloor>sqrt (real_of_int 8)\<rfloor> = 2"
  by (rule floor_sqrt_eq) simp_all

lemma K8: "default_n_intervals 8 = 2"
  using sqrt8 by (simp add: default_n_intervals_def)

lemma smp8: "\<exists>g. sample_members 3 2 3 8 (\<lambda>i. i) =
   Inr ([[(0, 3), (2, 5)], [(4, 7), (1, 4)], [(3, 6), (0, 4)]], g)"
  by (simp add: eval_nat_numeral get_intervals_def interval_step_def randint_def clamp_length_def)

lemma n_cols_transform: "n_cols (transform sl X ivs) = 3 * length ivs"
  by (simp add: transform_def Let_def)

lemma stub_outcomes:
  "member_outcomes (stub_env\<lparr>np_random := g0\<rparr>) X y ivss g =
      map (\<lambda>ivs. Inr (map real [0..<3 * length ivs])) ivss"
  by (induction ivss arbitrary: g)
    (simp_all add: stub_env_def fit_estimator_def n_cols_transform)

lemma fit8:
  assumes "nj \<noteq> 0"
  shows "fit (stub_env\<lparr>np_random := g0\<rparr>) sched (init 3 3 (Some nj) (Some 0)) panel8 [0, 1, 0, 1] =
     (None, (prepared (init 3 3 (Some nj) (Some 0)) panel8 [0, 1, 0, 1])
        \<lparr>intervals' := [[(0, 3), (2, 5)], [(4, 7), (1, 4)], [(3, 6), (0, 4)]],
         estimators' := [map real [0..<6], map real [0..<6], map real [0..<6]],
         is_fitted := True\<rparr>)"
proof -
  have cfg: "n_jobs (init 3 3 (Some nj) (Some 0) :: real list forest) = Some nj"
    "random_state (init 3 3 (Some nj) (Some 0) :: real list forest) = Some 0"
    "n_estimators (init 3 3 (Some nj) (Some 0) :: real list forest) = 3"
    "min_interval (init 3 3 (Some nj) (Some 0) :: real list forest) = 3"
    by (simp_all add: init_def)
  have env: "check_n_jobs (stub_env\<lparr>np_random := g0\<rparr>) (Some nj) = Inr nj"
    "check_random_state (stub_env\<lparr>np_random := g0\<rparr>) (Some 0) = Inr (\<lambda>i. i)"
    by (simp_all add: stub_env_def check_random_state_def)
  have m: "int (n_cols panel8) = 8" "clamped_min_interval 3 8 = 3"
    by (simp_all add: clamped_min_interval_def panel8_def)
  have par: "Parallel sched nj [Inr (map real [0..<6]), Inr (map real [0..<6]),
       Inr (map real [0..<6]) :: error + real list] =
     Inr [map real [0..<6], map real [0..<6], map real [0..<6]]"
    using Parallel_all_ok [OF assms, of "[Inr (map real [0..<6]), Inr (map real [0..<6]),
       Inr (map real [0..<6]) :: error + real list]" sched] by simp
  from smp8 obtain g where smp: "sample_members 3 2 3 8 (\<lambda>i. i) =
      Inr ([[(0, 3), (2, 5)], [(4, 7), (1, 4)], [(3, 6), (0, 4)]], g)" by blast
  show ?thesis
    unfolding fit_unfold cfg env m K8 by (simp add: smp stub_outcomes par)
qed

subsection \<open>What \<^verbatim>\<open>_fit\<close> leaves alone, and series that are too short\<close>

lemma fit_frame:
  "n_estimators (snd (fit env sched f X y)) = n_estimators f \<and>
   n_jobs (snd (fit env sched f X y)) = n_jobs f \<and>
   random_state (snd (fit env sched f X y)) = random_state f"
  unfolding fit_unfold
  by (simp add: prepared_def split: sum.splits prod.splits)

lemma fit_min_interval:
  "min_interval (snd (fit env sched f X y)) =
     (if isl (check_n_jobs env (n_jobs f)) \<or> isl (check_random_state env (random_state f))
      then min_interval f
      else clamped_min_interval (min_interval f) (int (n_cols X)))"
  unfolding fit_unfold
  by (simp add: prepared_def split: sum.splits prod.splits)

lemma interval_step_short:
  "L \<le> m \<Longrightarrow> interval_step m L rng = Inl ValueError"
  by (simp add: interval_step_def randint_def)

lemma get_intervals_short:
  assumes "1 \<le> K" and "L \<le> m"
  shows "get_intervals K m L rng = Inl ValueError"
proof -
  from assms(1) obtain k where "nat K = Suc k" by (cases "nat K") auto
  with assms show ?thesis
    by (simp add: get_intervals_def interval_step_short)
qed

lemma get_intervals_total:
  assumes "0 \<le> K" and "1 \<le> m" and "m < L"
  shows "\<exists>ivs rng'. get_intervals K m L rng = Inr (ivs, rng')"
  using intervals_loop_total [OF assms(2,3)] assms(1)
  by (simp add: get_intervals_def)

lemma sample_members_short:
  assumes "0 < n" and "1 \<le> K" and "L \<le> m"
  shows "sample_members n K m L rng = Inl ValueError"
proof -
  from assms(1) obtain k where "n = Suc k" by (cases n) auto
  with get_intervals_short [OF assms(2,3)] show ?thesis by simp
qed

lemma fit_short_series:
  assumes "1 \<le> n_estimators f" and "int (n_cols X) \<le> min_interval f"
  shows "\<exists>e. fst (fit env sched f X y) = Some e"
proof -
  from assms(2) have m: "clamped_min_interval (min_interval f) (int (n_cols X)) = int (n_cols X)"
    by (simp add: clamped_min_interval_def)
  from assms(1) have n: "0 < nat (n_estimators f)" by simp
  have "sample_members (nat (n_estimators f)) (default_n_intervals (int (n_cols X)))
          (int (n_cols X)) (int (n_cols X)) g = Inl ValueError" for g
    by (rule sample_members_short [OF n default_n_intervals_pos]) simp
  then show ?thesis
    unfolding fit_unfold m by (simp split: sum.splits)
qed

subsection \<open>The members of a fitted forest\<close>

lemma member_outcomes_fitted:
  assumes "\<forall>r \<in> set (member_outcomes env X y ivss rng). \<not> isl r" and "i < length ivss"
  shows "\<exists>g clone g'. clone_estimator env g = Inr (clone, g') \<and>
           estimator_fit env clone (transform (slope env) X (ivss ! i)) y =
             Inr (projr (member_outcomes env X y ivss rng ! i))"
  using assms
proof (induction ivss arbitrary: rng i)
  case Nil
  then show ?case by simp
next
  case (Cons ivs rest)
  from Cons.prems(1) obtain clone rng1 where
    cl: "clone_estimator env rng = Inr (clone, rng1)"
    by (cases "clone_estimator env rng") auto
  with Cons.prems(1) have first: "\<not> isl (fit_estimator env clone X y ivs)"
    and others: "\<forall>r \<in> set (member_outcomes env X y rest rng1). \<not> isl r"
    by simp_all
  show ?case
  proof (cases i)
    case 0
    from first obtain v where "fit_estimator env clone X y ivs = Inr v"
      by (cases "fit_estimator env clone X y ivs") auto
    with cl 0 show ?thesis
      by (auto simp: fit_estimator_def Let_def)
  next
    case (Suc j)
    with Cons.prems(2) have "j < length rest" by simp
    from Cons.IH [OF others this] cl Suc show ?thesis by simp
  qed
qed

lemma fit_None_members:
  assumes "fit env sched f X y = (None, r)" and "i < length (estimators' r)"
  shows "\<exists>g clone g'. clone_estimator env g = Inr (clone, g') \<and>
           estimator_fit env clone (transform (slope env) X (intervals' r ! i)) y =
             Inr (estimators' r ! i)"
proof -
  from assms(1) obtain nj rng sampled rng1 fitted where
    smp: "sample_members (nat (n_estimators f)) (default_n_intervals (int (n_cols X)))
       (clamped_min_interval (min_interval f) (int (n_cols X))) (int (n_cols X)) rng = Inr (sampled, rng1)"
    and par: "Parallel sched nj (member_outcomes env X y sampled rng1) = Inr fitted"
    and r: "r = (prepared f X y)\<lparr>intervals' := sampled, estimators' := fitted, is_fitted := True\<rparr>"
    by (rule fit_NoneE)
  from Parallel_Inr [OF par] have ok: "\<forall>r \<in> set (member_outcomes env X y sampled rng1). \<not> isl r"
    and fm: "fitted = map projr (member_outcomes env X y sampled rng1)" by simp_all
  from member_outcomes_all_ok [OF ok] have len: "length (member_outcomes env X y sampled rng1) = length sampled" .
  from assms(2) r fm len have i: "i < length sampled" by simp
  from member_outcomes_fitted [OF ok i] obtain g clone g' where
    "clone_estimator env g = Inr (clone, g')"
    "estimator_fit env clone (transform (slope env) X (sampled ! i)) y =
       Inr (projr (member_outcomes env X y sampled rng1 ! i))"
    by blast
  moreover from i len fm have "fitted ! i = projr (member_outcomes env X y sampled rng1 ! i)"
    by simp
  ultimately show ?thesis using r by auto
qed

lemma interval_step_needs_two:
  assumes "interval_step m L rng = Inr (iv, rng')"
  shows "2 \<le> L"
proof -
  obtain s e where iv: "iv = (s, e)" by (cases iv)
  from assms iv obtain r1 l where d1: "randint (L - m) rng = Inr (s, r1)"
    and d2: "randint (L - s - 1) r1 = Inr (l, rng')"
    by (auto elim: interval_step_draws)
  from randint_range [OF d1] have "0 \<le> s" by simp
  moreover from randint_range [OF d2] have "0 < L - s - 1" by simp
  ultimately show ?thesis by simp
qed

lemma fit_with_members_needs_two:
  assumes "fit env sched f X y = (None, r)" and "1 \<le> n_estimators f"
  shows "2 \<le> int (n_cols X)"
proof -
  from assms(1) obtain rng sampled rng1 where
    smp: "sample_members (nat (n_estimators f)) (default_n_intervals (int (n_cols X)))
       (clamped_min_interval (min_interval f) (int (n_cols X))) (int (n_cols X)) rng = Inr (sampled, rng1)"
    by (rule fit_NoneE)
  from assms(2) obtain n where n: "nat (n_estimators f) = Suc n" by (cases "nat (n_estimators f)") auto
  from default_n_intervals_pos [of "n_cols X"] obtain k where
    k: "nat (default_n_intervals (int (n_cols X))) = Suc k"
    by (cases "nat (default_n_intervals (int (n_cols X)))") auto
  from smp n obtain ivs g where
    "get_intervals (default_n_intervals (int (n_cols X)))
       (clamped_min_interval (min_interval f) (int (n_cols X))) (int (n_cols X)) rng = Inr (ivs, g)"
    by (auto split: sum.splits prod.splits)
  then have "intervals_loop (Suc k) (clamped_min_interval (min_interval f) (int (n_cols X)))
       (int (n_cols X)) rng = Inr (ivs, g)"
    using k by (auto simp: get_intervals_def split: if_splits)
  then obtain iv g1 where
    "interval_step (clamped_min_interval (min_interval f) (int (n_cols X))) (int (n_cols X)) rng = Inr (iv, g1)"
    by (auto split: sum.splits prod.splits)
  from interval_step_needs_two [OF this] show ?thesis .
qed

subsection \<open>Facts about \<^verbatim>\<open>temporal_curves_\<close>: what it reads and what it writes\<close>

lemma with_curves_self [simp]: "with_curves f f = f"
  by (simp add: with_curves_def)

lemma with_curves_fields [simp]:
  "series_length (with_curves f g) = series_length f"
  "estimators' (with_curves f g) = estimators' f"
  "intervals' (with_curves f g) = intervals' f"
  "mean_curve' (with_curves f g) = mean_curve' g"
  "stdev_curve' (with_curves f g) = stdev_curve' g"
  "slope_curve' (with_curves f g) = slope_curve' g"
  "n_intervals_wts_curve' (with_curves f g) = n_intervals_wts_curve' g"
  by (simp_all add: with_curves_def)

lemma with_curves_twice [simp]: "with_curves (with_curves f g) h = with_curves f h"
  by (simp add: with_curves_def)

lemma same_curves_with: "series_length g = series_length f \<Longrightarrow> same_curves f (with_curves g f)"
  by (simp add: same_curves_def)

lemma interval_update_transfer:
  assumes "same_curves f g"
  shows "interval_update env est i iv g =
           (fst (interval_update env est i iv f), with_curves g (snd (interval_update env est i iv f)))
         \<and> series_length (snd (interval_update env est i iv f)) = series_length f"
  using assms
  by (simp add: interval_update_def same_curves_def with_curves_def Let_def
      split: sum.splits)

lemma intervals_pass_transfer:
  assumes "same_curves f g"
  shows "intervals_pass env est i ivs g =
           (fst (intervals_pass env est i ivs f), with_curves g (snd (intervals_pass env est i ivs f)))
         \<and> series_length (snd (intervals_pass env est i ivs f)) = series_length f"
  using assms
proof (induction ivs arbitrary: i f g)
  case Nil
  then show ?case by (simp add: same_curves_def with_curves_def)
next
  case (Cons iv ivs)
  obtain r f1 where s1: "interval_update env est i iv f = (r, f1)" by (cases "interval_update env est i iv f")
  from interval_update_transfer [OF Cons.prems, of env est i iv] s1
  have g1: "interval_update env est i iv g = (r, with_curves g f1)"
    and len: "series_length f1 = series_length f" by simp_all
  show ?case
  proof (cases r)
    case (Some e)
    with s1 g1 len show ?thesis by simp
  next
    case None
    from Cons.prems len have "same_curves f1 (with_curves g f1)"
      by (simp add: same_curves_def)
    from Cons.IH [OF this, of "Suc i"] None s1 g1 len show ?thesis by simp
  qed
qed

lemma members_pass_transfer:
  assumes "same_curves f g"
  shows "members_pass env ms g =
           (fst (members_pass env ms f), with_curves g (snd (members_pass env ms f)))
         \<and> series_length (snd (members_pass env ms f)) = series_length f"
  using assms
proof (induction ms arbitrary: f g)
  case Nil
  then show ?case by (simp add: same_curves_def with_curves_def)
next
  case (Cons m ms)
  obtain est ivs where m: "m = (est, ivs)" by (cases m)
  obtain r f1 where s1: "intervals_pass env est 0 ivs f = (r, f1)" by (cases "intervals_pass env est 0 ivs f")
  from intervals_pass_transfer [OF Cons.prems, of env est 0 ivs] s1
  have g1: "intervals_pass env est 0 ivs g = (r, with_curves g f1)"
    and len: "series_length f1 = series_length f" by simp_all
  show ?case
  proof (cases r)
    case (Some e)
    with m s1 g1 len show ?thesis by simp
  next
    case None
    from Cons.prems len have "same_curves f1 (with_curves g f1)"
      by (simp add: same_curves_def)
    from Cons.IH [OF this] None m s1 g1 len show ?thesis by simp
  qed
qed

lemma temporal_curves_unfold:
  "temporal_curves' env f =
     (if series_length f < 0 then (Some ValueError, f)
      else members_pass env (zip (estimators' f) (intervals' f)) (zeroed f))"
  by (simp add: temporal_curves'_def np_zeros_def zeroed_def Let_def)

lemma temporal_curves_transfer:
  assumes "series_length g = series_length f" and "estimators' g = estimators' f"
    and "intervals' g = intervals' f" and "0 \<le> series_length f"
  shows "temporal_curves' env g =
           (fst (temporal_curves' env f), with_curves g (snd (temporal_curves' env f)))"
proof -
  have sc: "same_curves (zeroed f) (zeroed g)"
    using assms(1) by (simp add: same_curves_def zeroed_def)
  have wz: "with_curves (zeroed g) h = with_curves g h" for h
    by (simp add: with_curves_def zeroed_def)
  from members_pass_transfer [OF sc, of env "zip (estimators' f) (intervals' f)"] assms
  show ?thesis
    by (simp add: temporal_curves_unfold wz)
qed

lemma temporal_curves_frame:
  "series_length (snd (temporal_curves' env f)) = series_length f \<and>
   estimators' (snd (temporal_curves' env f)) = estimators' f \<and>
   intervals' (snd (temporal_curves' env f)) = intervals' f \<and>
   with_curves f (snd (temporal_curves' env f)) = snd (temporal_curves' env f)"
proof (cases "series_length f < 0")
  case True
  then show ?thesis by (simp add: temporal_curves_unfold)
next
  case False
  have sc: "same_curves (zeroed f) (zeroed f)" by (simp add: same_curves_def)
  have wz: "with_curves (zeroed f) h = with_curves f h" for h
    by (simp add: with_curves_def zeroed_def)
  from members_pass_transfer [OF sc, of env "zip (estimators' f) (intervals' f)"]
  have "members_pass env (zip (estimators' f) (intervals' f)) (zeroed f) =
      (fst (members_pass env (zip (estimators' f) (intervals' f)) (zeroed f)),
       with_curves f (snd (members_pass env (zip (estimators' f) (intervals' f)) (zeroed f))))"
    by (simp add: wz)
  then have "snd (members_pass env (zip (estimators' f) (intervals' f)) (zeroed f)) =
       with_curves f (snd (members_pass env (zip (estimators' f) (intervals' f)) (zeroed f)))"
    by (metis snd_conv)
  with False show ?thesis
    by (simp add: temporal_curves_unfold) (metis with_curves_fields(1,2,3) with_curves_twice)
qed

lemma with_curves_is_fitted [simp]: "is_fitted (with_curves f g) = is_fitted f"
  by (simp add: with_curves_def)

lemma fit_Some_keeps:
  assumes "fit env sched f X y = (Some e, f')"
  shows "is_fitted f' = is_fitted f \<and> estimators' f' = estimators' f \<and> 0 \<le> series_length f'"
  using assms unfolding fit_unfold
  by (auto simp: prepared_def split: sum.splits prod.splits)

lemma temporal_curves_keeps:
  assumes "temporal_curves' env f = (r, f')"
  shows "is_fitted f' = is_fitted f \<and> estimators' f' = estimators' f \<and>
         series_length f' = series_length f"
proof -
  from assms have f': "f' = snd (temporal_curves' env f)" by simp
  from temporal_curves_frame [of env f] have
    "with_curves f f' = f'" "estimators' f' = estimators' f" "series_length f' = series_length f"
    unfolding f' by simp_all
  moreover have "is_fitted (with_curves f f') = is_fitted f" by simp
  ultimately show ?thesis by simp
qed

lemma never_fitted_invariant:
  "never_fitted env f \<Longrightarrow> \<not> is_fitted f \<and> estimators' f = [] \<and> 0 \<le> series_length f"
proof (induction rule: never_fitted.induct)
  case (new mi ne nj rs)
  show ?case by (simp add: init_def)
next
  case (failed_fit f sched X y e f')
  from fit_Some_keeps [OF failed_fit.hyps(2)] failed_fit.IH show ?case by simp
next
  case (curves_call f r f')
  from temporal_curves_keeps [OF curves_call.hyps(2)] curves_call.IH show ?case by simp
qed

subsection \<open>The mask of an interval inside the series\<close>

lemma fold_put_nth:
  assumes "\<forall>i \<in> set idx. 0 \<le> i"
  shows "length (fold (\<lambda>i b. b[nat (if i < 0 then i + n else i) := v]) idx a) = length a \<and>
         (\<forall>t < length a. fold (\<lambda>i b. b[nat (if i < 0 then i + n else i) := v]) idx a ! t =
            (if int t \<in> set idx then v else a ! t))"
  using assms
proof (induction idx arbitrary: a)
  case Nil
  then show ?case by simp
next
  case (Cons i idx)
  from Cons.prems have i: "0 \<le> i" and rest: "\<forall>i \<in> set idx. 0 \<le> i" by simp_all
  from i have upd: "a[nat (if i < 0 then i + n else i) := v] = a[nat i := v]" by simp
  from Cons.IH [OF rest, of "a[nat i := v]"] i show ?case
    unfolding fold_simps upd
    by (auto simp: nth_list_update)
qed

lemma np_put_range_valid:
  assumes "0 \<le> lo" and "hi \<le> int n"
  shows "np_put_range (replicate n 0) lo hi 1 =
           Inr (map (\<lambda>t. if covers (lo, hi) t then 1 else 0) [0..<n])"
proof -
  have ok: "list_all (\<lambda>i. - int n \<le> i \<and> i < int n) [lo..hi - 1]"
    using assms by (auto simp: list_all_iff)
  have nn: "\<forall>i \<in> set [lo..hi - 1]. 0 \<le> i" using assms(1) by auto
  let ?r = "fold (\<lambda>i b. b[nat (if i < 0 then i + int n else i) := 1]) [lo..hi - 1] (replicate n (0::real))"
  note F = fold_put_nth [OF nn, of "int n" "1::real" "replicate n 0"]
  from F have len: "length ?r = n" by simp
  from F have nth: "\<forall>t < n. ?r ! t = (if lo \<le> int t \<and> int t < hi then 1 else 0)"
    by auto
  have "?r = map (\<lambda>t. if covers (lo, hi) t then 1 else 0) [0..<n]"
  proof (rule nth_equalityI)
    show "length ?r = length (map (\<lambda>t. if covers (lo, hi) t then 1 else (0::real)) [0..<n])"
      using len by simp
  next
    fix t assume "t < length ?r"
    with len have t: "t < n" by simp
    with nth show "?r ! t = map (\<lambda>t. if covers (lo, hi) t then 1 else 0) [0..<n] ! t"
      by (auto simp: covers_def)
  qed
  with ok show ?thesis by (simp add: np_put_range_def)
qed

lemma np_where_mask:
  "np_where (map (\<lambda>t. if covers iv t then 1 else 0) [0..<n]) w 0 =
     map (\<lambda>t. if covers iv t then w else 0) [0..<n]"
  by (simp add: np_where_def)

lemma iadd_maps:
  "iadd (Some (map G [0..<n])) (map H [0..<n]) = Some (map (\<lambda>t. G t + H t) [0..<n])"
proof -
  have "map2 (+) (map G [0..<n]) (map H [0..<n]) = map (\<lambda>t. G t + H t) [0..<n]"
    by (rule nth_equalityI) simp_all
  then show ?thesis by (simp add: iadd_def)
qed

subsection \<open>The loops on intervals inside the series\<close>

lemma interval_update_valid:
  assumes "series_length f = int n" and "0 \<le> fst iv" and "snd iv \<le> int n"
    and "3 * i + 2 < length (feature_importances env est)"
  shows "interval_update env est i iv (curves f n Gm Gs Gl Gw) =
     (None, curves f n
        (\<lambda>t. Gm t + (if covers iv t then feature_importances env est ! (3 * i) else 0))
        (\<lambda>t. Gs t + (if covers iv t then feature_importances env est ! (3 * i + 1) else 0))
        (\<lambda>t. Gl t + (if covers iv t then feature_importances env est ! (3 * i + 2) else 0))
        (\<lambda>t. Gw t + (if covers iv t then 1 else 0)))"
proof -
  from np_put_range_valid [OF assms(2,3)]
  have put: "np_put_range (replicate n 0) (fst iv) (snd iv) 1 =
      Inr (map (\<lambda>t. if covers iv t then 1 else 0) [0..<n])" by simp
  show ?thesis
    using assms(1,4)
    by (simp add: interval_update_def curves_def np_zeros_def put getitem_def np_where_mask
        iadd_maps Let_def)
qed

lemma member_importance_Cons:
  "member_importance imp c i (iv # ivs) t =
     (if covers iv t then imp ! (3 * i + c) else 0) + member_importance imp c (Suc i) ivs t"
  by (simp add: member_importance_def)

lemma member_coverage_Cons:
  "member_coverage (iv # ivs) t = (if covers iv t then 1 else 0) + member_coverage ivs t"
  by (simp add: member_coverage_def)

lemma intervals_pass_valid:
  assumes "series_length f = int n"
    and "\<forall>iv \<in> set ivs. 0 \<le> fst iv \<and> snd iv \<le> int n"
    and "3 * (i + length ivs) \<le> length (feature_importances env est)"
  shows "intervals_pass env est i ivs (curves f n Gm Gs Gl Gw) =
     (None, curves f n
        (\<lambda>t. Gm t + member_importance (feature_importances env est) 0 i ivs t)
        (\<lambda>t. Gs t + member_importance (feature_importances env est) 1 i ivs t)
        (\<lambda>t. Gl t + member_importance (feature_importances env est) 2 i ivs t)
        (\<lambda>t. Gw t + member_coverage ivs t))"
  using assms(2,3)
proof (induction ivs arbitrary: i Gm Gs Gl Gw)
  case Nil
  show ?case by (simp add: member_importance_def member_coverage_def)
next
  case (Cons iv ivs)
  from Cons.prems have iv: "0 \<le> fst iv" "snd iv \<le> int n"
    and imp: "3 * i + 2 < length (feature_importances env est)"
    and rest: "\<forall>iv \<in> set ivs. 0 \<le> fst iv \<and> snd iv \<le> int n"
      "3 * (Suc i + length ivs) \<le> length (feature_importances env est)"
    by simp_all
  note step = interval_update_valid [OF assms(1) iv imp, of Gm Gs Gl Gw]
  note IH = Cons.IH [OF rest]
  show ?case
    unfolding intervals_pass.simps step
    by (simp add: IH member_importance_Cons member_coverage_Cons add.assoc cong: if_cong)
qed

lemma members_pass_valid:
  assumes "series_length f = int n"
    and "\<forall>m \<in> set ms. (\<forall>iv \<in> set (snd m). 0 \<le> fst iv \<and> snd iv \<le> int n) \<and>
           3 * length (snd m) \<le> length (feature_importances env (fst m))"
  shows "members_pass env ms (curves f n Gm Gs Gl Gw) =
     (None, curves f n
        (\<lambda>t. Gm t + importance_curve env 0 ms t)
        (\<lambda>t. Gs t + importance_curve env 1 ms t)
        (\<lambda>t. Gl t + importance_curve env 2 ms t)
        (\<lambda>t. Gw t + coverage_curve ms t))"
  using assms(2)
proof (induction ms arbitrary: Gm Gs Gl Gw)
  case Nil
  show ?case by (simp add: importance_curve_def coverage_curve_def)
next
  case (Cons m ms)
  obtain est ivs where m: "m = (est, ivs)" by (cases m)
  from Cons.prems m have iv: "\<forall>iv \<in> set ivs. 0 \<le> fst iv \<and> snd iv \<le> int n"
    and imp: "3 * (0 + length ivs) \<le> length (feature_importances env est)"
    and rest: "\<forall>m \<in> set ms. (\<forall>iv \<in> set (snd m). 0 \<le> fst iv \<and> snd iv \<le> int n) \<and>
           3 * length (snd m) \<le> length (feature_importances env (fst m))"
    by simp_all
  note inner = intervals_pass_valid [OF assms(1) iv imp, of Gm Gs Gl Gw]
  note IH = Cons.IH [OF rest]
  show ?case
    unfolding m members_pass.simps inner
    by (simp add: IH importance_curve_def coverage_curve_def add.assoc)
qed

lemma zeroed_curves:
  "series_length f = int n \<Longrightarrow> zeroed f = curves f n (\<lambda>_. 0) (\<lambda>_. 0) (\<lambda>_. 0) (\<lambda>_. 0)"
  by (simp add: zeroed_def curves_def map_replicate_const)

lemma temporal_curves_valid:
  assumes "series_length f = int n"
    and "\<forall>m \<in> set (zip (estimators' f) (intervals' f)).
           (\<forall>iv \<in> set (snd m). 0 \<le> fst iv \<and> snd iv \<le> int n) \<and>
           3 * length (snd m) \<le> length (feature_importances env (fst m))"
  shows "temporal_curves' env f =
     (None, f\<lparr>mean_curve' := Some (map (importance_curve env 0 (zip (estimators' f) (intervals' f))) [0..<n]),
              stdev_curve' := Some (map (importance_curve env 1 (zip (estimators' f) (intervals' f))) [0..<n]),
              slope_curve' := Some (map (importance_curve env 2 (zip (estimators' f) (intervals' f))) [0..<n]),
              n_intervals_wts_curve' := Some (map (coverage_curve (zip (estimators' f) (intervals' f))) [0..<n])\<rparr>)"
proof -
  from assms(1) have nn: "\<not> series_length f < 0" by simp
  show ?thesis
    unfolding temporal_curves_unfold zeroed_curves [OF assms(1)]
      members_pass_valid [OF assms]
    using nn by (simp add: curves_def)
qed

subsection \<open>The intervals of a fitted forest\<close>

lemma interval_step_in_series:
  assumes "interval_step m L rng = Inr ((s, e), rng')"
  shows "0 \<le> s \<and> s \<le> e \<and> e \<le> L - 1"
proof -
  from assms obtain r1 l where d1: "randint (L - m) rng = Inr (s, r1)"
    and d2: "randint (L - s - 1) r1 = Inr (l, rng')"
    and e: "e = s + clamp_length m l"
    by (rule interval_step_draws)
  from randint_range [OF d1] have s: "0 \<le> s" "s < L - m" by simp_all
  from randint_range [OF d2] have l: "0 \<le> l" "l < L - s - 1" by simp_all
  show ?thesis
  proof (cases "l < m")
    case True
    with e have "e = s + m" by (simp add: clamp_length_def)
    with s l True show ?thesis by simp
  next
    case False
    with e have "e = s + l" by (simp add: clamp_length_def)
    with s l show ?thesis by simp
  qed
qed

lemma intervals_loop_in_series:
  "intervals_loop k m L rng = Inr (ivs, rng') \<Longrightarrow> iv \<in> set ivs \<Longrightarrow>
     0 \<le> fst iv \<and> fst iv \<le> snd iv \<and> snd iv \<le> L - 1"
proof (induction k arbitrary: rng ivs)
  case 0
  then show ?case by simp
next
  case (Suc k)
  from Suc.prems(1) obtain first r1 rest
    where st: "interval_step m L rng = Inr (first, r1)"
      and lp: "intervals_loop k m L r1 = Inr (rest, rng')"
      and ivs: "ivs = first # rest"
    by (auto split: sum.splits prod.splits)
  from Suc.prems(2) ivs consider "iv = first" | "iv \<in> set rest" by auto
  then show ?case
  proof cases
    case 1
    with st have "interval_step m L rng = Inr ((fst iv, snd iv), r1)" by simp
    from interval_step_in_series [OF this] show ?thesis .
  next
    case 2
    from Suc.IH [OF lp 2] show ?thesis .
  qed
qed

lemma get_intervals_in_series:
  assumes "get_intervals K m L rng = Inr (ivs, rng')" and "iv \<in> set ivs"
  shows "0 \<le> fst iv \<and> fst iv \<le> snd iv \<and> snd iv \<le> L - 1"
proof -
  from assms(1) have "intervals_loop (nat K) m L rng = Inr (ivs, rng')"
    by (auto simp: get_intervals_def split: if_splits)
  from intervals_loop_in_series [OF this assms(2)] show ?thesis .
qed

lemma fit_None_intervals:
  assumes "fit env sched f0 X y = (None, f)"
  shows "series_length f = int (n_cols X) \<and>
         n_intervals f = default_n_intervals (int (n_cols X)) \<and>
         (\<forall>ivs \<in> set (intervals' f). \<forall>iv \<in> set ivs.
            0 \<le> fst iv \<and> fst iv \<le> snd iv \<and> snd iv \<le> int (n_cols X) - 1)"
proof -
  from assms obtain g sampled g1 fitted where
    smp: "sample_members (nat (n_estimators f0)) (default_n_intervals (int (n_cols X)))
       (clamped_min_interval (min_interval f0) (int (n_cols X))) (int (n_cols X)) g = Inr (sampled, g1)"
    and f: "f = (prepared f0 X y)\<lparr>intervals' := sampled, estimators' := fitted, is_fitted := True\<rparr>"
    by (rule fit_NoneE)
  have "\<forall>ivs \<in> set sampled. \<forall>iv \<in> set ivs.
            0 \<le> fst iv \<and> fst iv \<le> snd iv \<and> snd iv \<le> int (n_cols X) - 1"
  proof (intro ballI)
    fix ivs iv assume "ivs \<in> set sampled" and iv: "iv \<in> set ivs"
    from sample_members_elem [OF smp this(1)] obtain h h' where
      "get_intervals (default_n_intervals (int (n_cols X)))
         (clamped_min_interval (min_interval f0) (int (n_cols X))) (int (n_cols X)) h = Inr (ivs, h')"
      by blast
    from get_intervals_in_series [OF this iv]
    show "0 \<le> fst iv \<and> fst iv \<le> snd iv \<and> snd iv \<le> int (n_cols X) - 1" .
  qed
  with f show ?thesis by (simp add: prepared_def)
qed

lemma fit8_stub:
  "fit stub_env [] (init 3 3 (Some 1) (Some 0)) panel8 [0, 1, 0, 1] = (None, fitted8)"
proof -
  have "stub_env\<lparr>np_random := np_random stub_env\<rparr> = stub_env" by simp
  with fit8 [of 1 "np_random stub_env" "[]"] show ?thesis
    by (simp add: fitted8_def)
qed

lemma fitted8_fields:
  "estimators' fitted8 = [map real [0..<6], map real [0..<6], map real [0..<6]]"
  "intervals' fitted8 = [[(0, 3), (2, 5)], [(4, 7), (1, 4)], [(3, 6), (0, 4)]]"
  "n_intervals fitted8 = 2"
  "series_length fitted8 = 8"
proof -
  have "stub_env\<lparr>np_random := np_random stub_env\<rparr> = stub_env" by simp
  with fit8 [of 1 "np_random stub_env" "[]"]
  have e: "fitted8 = (prepared (init 3 3 (Some 1) (Some 0)) panel8 [0, 1, 0, 1])
        \<lparr>intervals' := [[(0, 3), (2, 5)], [(4, 7), (1, 4)], [(3, 6), (0, 4)]],
         estimators' := [map real [0..<6], map real [0..<6], map real [0..<6]],
         is_fitted := True\<rparr>"
    by (simp add: fitted8_def)
  show "estimators' fitted8 = [map real [0..<6], map real [0..<6], map real [0..<6]]"
    "intervals' fitted8 = [[(0, 3), (2, 5)], [(4, 7), (1, 4)], [(3, 6), (0, 4)]]"
    "n_intervals fitted8 = 2"
    "series_length fitted8 = 8"
    unfolding e by (simp_all add: prepared_def K8 panel8_def)
qed

section \<open>Properties of the sampler\<close>

text \<open>
  C1. For a series length \<open>L\<close>, a count \<open>K \<ge> 1\<close> and a minimum length \<open>m\<close> with
  \<open>1 \<le> m < L\<close>, the sampler returns, whatever the generator draws, exactly \<open>K\<close> pairs,
  and every pair \<open>(start, end)\<close> has \<open>0 \<le> start < end\<close>, \<open>end - start \<ge> m\<close> and
  \<open>end \<le> L - 1\<close>, so the interval lies within \<open>[0, L)\<close>.
\<close>

theorem get_intervals_within_series:
  assumes "1 \<le> K" and "1 \<le> m" and "m < L"
  shows "\<exists>ivs rng'. get_intervals K m L rng = Inr (ivs, rng') \<and> int (length ivs) = K \<and>
           (\<forall>iv \<in> set ivs. 0 \<le> fst iv \<and> fst iv < snd iv \<and> m \<le> snd iv - fst iv \<and> snd iv \<le> L - 1)"
proof -
  from intervals_loop_total [OF assms(2,3)] obtain ivs rng'
    where lp: "intervals_loop (nat K) m L rng = Inr (ivs, rng')" by blast
  with assms(1) have g: "get_intervals K m L rng = Inr (ivs, rng')"
    by (simp add: get_intervals_def)
  from intervals_loop_length [OF lp] assms(1) have len: "int (length ivs) = K" by simp
  have "\<forall>iv \<in> set ivs. 0 \<le> fst iv \<and> fst iv < snd iv \<and> m \<le> snd iv - fst iv \<and> snd iv \<le> L - 1"
  proof
    fix iv assume "iv \<in> set ivs"
    then have "(fst iv, snd iv) \<in> set ivs" by simp
    from intervals_loop_bounds [OF assms(2) lp this] show
      "0 \<le> fst iv \<and> fst iv < snd iv \<and> m \<le> snd iv - fst iv \<and> snd iv \<le> L - 1" .
  qed
  with g len show ?thesis by blast
qed

theorem get_intervals_within_series_witness:
  "(1::int) \<le> 2 \<and> (1::int) \<le> 3 \<and> (3::int) < 8 \<and>
   (\<exists>ivs rng'. get_intervals 2 3 8 (\<lambda>_. 0) = Inr (ivs, rng') \<and> int (length ivs) = 2 \<and>
      (\<forall>iv \<in> set ivs. 0 \<le> fst iv \<and> fst iv < snd iv \<and> 3 \<le> snd iv - fst iv \<and> snd iv \<le> 8 - 1))"
  using get_intervals_within_series [of 2 3 8 "\<lambda>_. 0"] by simp

text \<open>
  C2, as stated: for some valid \<open>(L, K, m)\<close> the clamped length gives an interval whose
  end exceeds \<open>L - 1\<close>. No valid call does: the start is drawn below \<open>L - m\<close>, so
  \<open>start + m \<le> L - 1\<close>.
\<close>

theorem clamp_end_beyond_series_unreachable:
  "\<not> (\<exists>K m L rng ivs rng'. 1 \<le> K \<and> 1 \<le> m \<and> m < L \<and>
          get_intervals K m L rng = Inr (ivs, rng') \<and> (\<exists>iv \<in> set ivs. L - 1 < snd iv))"
proof
  assume "\<exists>K m L rng ivs rng'. 1 \<le> K \<and> 1 \<le> m \<and> m < L \<and>
            get_intervals K m L rng = Inr (ivs, rng') \<and> (\<exists>iv \<in> set ivs. L - 1 < snd iv)"
  then obtain K m L rng ivs rng' iv
    where K: "1 \<le> K" and m: "1 \<le> m"
      and g: "get_intervals K m L rng = Inr (ivs, rng')"
      and iv: "iv \<in> set ivs" and far: "L - 1 < snd iv"
    by blast
  from g K have lp: "intervals_loop (nat K) m L rng = Inr (ivs, rng')"
    by (simp add: get_intervals_def)
  from iv have "(fst iv, snd iv) \<in> set ivs" by simp
  from intervals_loop_bounds [OF m lp this] have "snd iv \<le> L - 1" by simp
  with far show False by simp
qed

text \<open>
  C2, amended. For \<open>1 \<le> m < L\<close>, with \<open>start\<close> and \<open>len\<close> the two numbers drawn: the
  interval is \<open>(start, start + clamp_length m len)\<close> and its end is at most \<open>L - 1\<close>. When
  the length is clamped (\<open>len < m\<close>) the end is \<open>start + m\<close>; when it is not, the end is at
  most \<open>L - 2\<close>. So the end \<open>L - 1\<close> is reached through the clamping branch only, and
  it is reached: some generator gives the interval \<open>(L - m - 1, L - 1)\<close>.
\<close>

theorem clamp_end_at_most_last_index:
  assumes "1 \<le> m" and "m < L"
    and "randint (L - m) rng = Inr (start, rng1)"
    and "randint (L - start - 1) rng1 = Inr (len, rng2)"
  shows "interval_step m L rng = Inr ((start, start + clamp_length m len), rng2) \<and>
         start + clamp_length m len \<le> L - 1 \<and>
         (len < m \<longrightarrow> start + clamp_length m len = start + m) \<and>
         (m \<le> len \<longrightarrow> start + clamp_length m len \<le> L - 2) \<and>
         (\<exists>g g'. interval_step m L g = Inr ((L - m - 1, L - 1), g'))"
proof -
  have step: "interval_step m L rng = Inr ((start, start + clamp_length m len), rng2)"
    using assms(3,4) by (simp add: interval_step_def)
  from randint_range [OF assms(3)] have s: "0 \<le> start" "start < L - m" by simp_all
  from randint_range [OF assms(4)] have l: "0 \<le> len" "len < L - start - 1" by simp_all
  have le: "start + clamp_length m len \<le> L - 1"
    using s l assms(1) by (simp add: clamp_length_def)
  have cl: "len < m \<longrightarrow> start + clamp_length m len = start + m"
    by (simp add: clamp_length_def)
  have un: "m \<le> len \<longrightarrow> start + clamp_length m len \<le> L - 2"
    using l by (simp add: clamp_length_def)
  define g :: rng where "g = (\<lambda>i. if i = 0 then nat (L - m - 1) else 0)"
  have g0: "int (g 0) = L - m - 1"
    using assms(2) by (simp add: g_def)
  have "(L - m - 1) mod (L - m) = L - m - 1"
    using assms(2) by (intro mod_pos_pos_trivial) simp_all
  with g0 have md: "int (g 0) mod (L - m) = L - m - 1" by (simp only:)
  have "randint (L - m) g = Inr (int (g 0) mod (L - m), (\<lambda>i. g (Suc i)))"
    using assms(2) by (intro randint_Inr) simp
  with md have d1: "randint (L - m) g = Inr (L - m - 1, (\<lambda>i. g (Suc i)))"
    by (simp only:)
  have d2: "randint (L - (L - m - 1) - 1) (\<lambda>i. g (Suc i)) = Inr (0, (\<lambda>i. g (Suc (Suc i))))"
    using assms(1) by (simp add: randint_def g_def)
  have "interval_step m L g = Inr ((L - m - 1, L - 1), (\<lambda>i. g (Suc (Suc i))))"
    using assms(1) d1 d2 by (simp add: interval_step_def clamp_length_def)
  then have ex: "\<exists>g g'. interval_step m L g = Inr ((L - m - 1, L - 1), g')" by blast
  from step le cl un ex show ?thesis by blast
qed

theorem clamp_end_at_most_last_index_witness:
  "(1::int) \<le> 3 \<and> (3::int) < 4 \<and>
   randint (4 - 3) (\<lambda>_. 0) = Inr (0, (\<lambda>_. 0)) \<and>
   randint (4 - 0 - 1) (\<lambda>_. 0) = Inr (0, (\<lambda>_. 0)) \<and>
   interval_step 3 4 (\<lambda>_. 0) = Inr ((0, 0 + clamp_length 3 0), (\<lambda>_. 0)) \<and>
   0 + clamp_length 3 0 = (3::int)"
proof -
  have d1: "randint (4 - 3) (\<lambda>_. 0) = Inr (0, (\<lambda>_. 0))" by (simp add: randint_def)
  have d2: "randint (4 - 0 - 1) (\<lambda>_. 0) = Inr (0, (\<lambda>_. 0))" by (simp add: randint_def)
  have m: "(1::int) \<le> 3" "(3::int) < 4" by simp_all
  from clamp_end_at_most_last_index [OF m d1 d2] d1 d2 show ?thesis
    by (simp add: clamp_length_def)
qed

section \<open>Properties of the feature extractor\<close>

text \<open>
  C6. For a panel \<open>X\<close> of \<open>N\<close> series of equal length and a set of \<open>K\<close> intervals
  \<open>0 \<le> start < end \<le> L\<close>, the extractor returns an array of exactly \<open>N\<close> rows and \<open>3K\<close>
  columns, and in row \<open>i\<close> the columns \<open>3j\<close>, \<open>3j + 1\<close>, \<open>3j + 2\<close> are the mean, the standard
  deviation and the slope of the values of series \<open>i\<close> at the indices \<open>start\<^sub>j \<le> t < end\<^sub>j\<close>:
  row \<open>i\<close> of the result comes from row \<open>i\<close> of the panel.
\<close>

theorem transform_shape_and_layout:
  assumes wf: "wf_ndarray X"
    and rng: "\<forall>iv \<in> set intervals. 0 \<le> fst iv \<and> fst iv < snd iv \<and> snd iv \<le> int (n_cols X)"
  shows "n_rows (transform sl X intervals) = n_rows X \<and>
         n_cols (transform sl X intervals) = 3 * length intervals \<and>
         wf_ndarray (transform sl X intervals) \<and>
         (\<forall>i < n_rows X. \<forall>j < length intervals.
            cells (transform sl X intervals) ! i ! (3 * j) =
              np_mean (map (\<lambda>t. cells X ! i ! t) [nat (fst (intervals ! j))..<nat (snd (intervals ! j))]) \<and>
            cells (transform sl X intervals) ! i ! (3 * j + 1) =
              np_std (map (\<lambda>t. cells X ! i ! t) [nat (fst (intervals ! j))..<nat (snd (intervals ! j))]) \<and>
            cells (transform sl X intervals) ! i ! (3 * j + 2) =
              sl (map (\<lambda>t. cells X ! i ! t) [nat (fst (intervals ! j))..<nat (snd (intervals ! j))]))"
proof -
  have shape: "n_rows (transform sl X intervals) = n_rows X"
    "n_cols (transform sl X intervals) = 3 * length intervals"
    by (simp_all add: transform_def Let_def)
  have wfT: "wf_ndarray (transform sl X intervals)"
    unfolding wf_ndarray_def shape transform_cells
    using transposed_wf [of "n_rows X"] by (simp add: transform_loop_length)
  have cellsT: "cells (transform sl X intervals) ! i ! (3 * j) =
              np_mean (map (\<lambda>t. cells X ! i ! t) [nat (fst (intervals ! j))..<nat (snd (intervals ! j))]) \<and>
            cells (transform sl X intervals) ! i ! (3 * j + 1) =
              np_std (map (\<lambda>t. cells X ! i ! t) [nat (fst (intervals ! j))..<nat (snd (intervals ! j))]) \<and>
            cells (transform sl X intervals) ! i ! (3 * j + 2) =
              sl (map (\<lambda>t. cells X ! i ! t) [nat (fst (intervals ! j))..<nat (snd (intervals ! j))])"
    if i: "i < n_rows X" and j: "j < length intervals" for i j
  proof -
    from wf i have "cells X ! i \<in> set (cells X)" by (simp add: wf_ndarray_def)
    with wf have len: "length (cells X ! i) = n_cols X" by (simp add: wf_ndarray_def)
    from j have "intervals ! j \<in> set intervals" by simp
    with rng have b: "0 \<le> fst (intervals ! j)" "fst (intervals ! j) \<le> snd (intervals ! j)"
      "snd (intervals ! j) \<le> int (length (cells X ! i))"
      unfolding len by auto
    note sl = py_slice_in_range [OF b]
    from transform_cell [OF wf i j, of 0 sl] transform_cell [OF wf i j, of 1 sl]
      transform_cell [OF wf i j, of 2 sl]
    show ?thesis unfolding sl by simp
  qed
  from shape wfT cellsT show ?thesis by blast
qed

theorem transform_shape_and_layout_witness:
  "wf_ndarray \<lparr>n_rows = 2, n_cols = 3, cells = [[1, 2, 3], [4, 4, 4]]\<rparr> \<and>
   list_all (\<lambda>iv. 0 \<le> fst iv \<and> fst iv < snd iv \<and> snd iv \<le> 3) [(0, 2 :: int)] \<and>
   n_rows (transform (\<lambda>_. 0) \<lparr>n_rows = 2, n_cols = 3, cells = [[1, 2, 3], [4, 4, 4]]\<rparr> [(0, 2)]) = 2 \<and>
   n_cols (transform (\<lambda>_. 0) \<lparr>n_rows = 2, n_cols = 3, cells = [[1, 2, 3], [4, 4, 4]]\<rparr> [(0, 2)]) = 3 \<and>
   cells (transform (\<lambda>_. 0) \<lparr>n_rows = 2, n_cols = 3, cells = [[1, 2, 3], [4, 4, 4]]\<rparr> [(0, 2)]) ! 0 ! 0 = 3 / 2 \<and>
   cells (transform (\<lambda>_. 0) \<lparr>n_rows = 2, n_cols = 3, cells = [[1, 2, 3], [4, 4, 4]]\<rparr> [(0, 2)]) ! 1 ! 1 = 0"
proof -
  let ?X = "\<lparr>n_rows = 2, n_cols = 3, cells = [[1, 2, 3], [4, 4, 4 :: real]]\<rparr>"
  have wf: "wf_ndarray ?X" by (simp add: wf_ndarray_def)
  have iv: "\<forall>iv \<in> set [(0, 2 :: int)]. 0 \<le> fst iv \<and> fst iv < snd iv \<and> snd iv \<le> int (n_cols ?X)"
    by simp
  note T = transform_shape_and_layout [OF wf iv, of "\<lambda>_. 0"]
  have up: "[0..<2] = [0, Suc 0]" by (simp add: upt_rec numeral_2_eq_2)
  from T have c00: "cells (transform (\<lambda>_. 0) ?X [(0, 2)]) ! 0 ! (3 * 0) =
      np_mean (map (\<lambda>t. cells ?X ! 0 ! t) [nat (fst ([(0, 2 :: int)] ! 0))..<nat (snd ([(0, 2 :: int)] ! 0))])"
    by simp
  from T have c11: "cells (transform (\<lambda>_. 0) ?X [(0, 2)]) ! 1 ! (3 * 0 + 1) =
      np_std (map (\<lambda>t. cells ?X ! 1 ! t) [nat (fst ([(0, 2 :: int)] ! 0))..<nat (snd ([(0, 2 :: int)] ! 0))])"
    by simp
  from c00 have a: "cells (transform (\<lambda>_. 0) ?X [(0, 2)]) ! 0 ! 0 = 3 / 2"
    by (simp add: up np_mean_def)
  from c11 have b: "cells (transform (\<lambda>_. 0) ?X [(0, 2)]) ! 1 ! 1 = 0"
    by (simp add: up np_mean_def np_std_def)
  from T wf a b show ?thesis by simp
qed

section \<open>Properties of fit\<close>

text \<open>
  C9. After a successful fit with ensemble size \<open>M\<close> on a panel of series of length \<open>L\<close>,
  the forest is marked fitted and holds exactly \<open>M\<close> fitted estimators and \<open>M\<close> interval
  sets (\<open>nat M\<close> is \<open>M\<close> for a size \<open>M \<ge> 0\<close>). The estimator at position \<open>i\<close> is fitted: it
  is what the base learner's fit returns for a clone of the base learner, on the
  features that the extractor computes from the panel with the interval set at position
  \<open>i\<close>, and the labels. The attribute \<open>n_intervals\<close> is \<open>floor (sqrt L)\<close>, or one when that
  is zero, and every interval set has that many intervals. \<open>classes'\<close> holds the distinct
  values of the label vector, sorted. The forced value one is taken for \<open>L = 0\<close>; a fit
  with at least one member returns only for \<open>L \<ge> 2\<close> (\<open>fit_with_members_needs_two\<close>), so
  the forced value shows in \<open>n_intervals\<close> and in no interval set. The concrete runs are
  the end-to-end example of the specification (four series of length eight, labels
  \<open>[0, 1, 0, 1]\<close>, three members) and a fit of no member on the empty panel.
\<close>

theorem fit_ensemble_shape:
  assumes "fit env sched f X y = (None, r)"
  shows "is_fitted r \<and>
         length (estimators' r) = nat (n_estimators f) \<and>
         length (intervals' r) = nat (n_estimators f) \<and>
         (\<forall>i < length (estimators' r). \<exists>g clone g'.
            clone_estimator env g = Inr (clone, g') \<and>
            estimator_fit env clone (transform (slope env) X (intervals' r ! i)) y =
              Inr (estimators' r ! i)) \<and>
         n_intervals r = (if \<lfloor>sqrt (real (n_cols X))\<rfloor> = 0 then 1 else \<lfloor>sqrt (real (n_cols X))\<rfloor>) \<and>
         (\<forall>ivs \<in> set (intervals' r). int (length ivs) = n_intervals r) \<and>
         set (classes' r) = set y \<and> distinct (classes' r) \<and> sorted (classes' r)"
proof -
  from assms have fitted: "is_fitted r"
    by (auto elim!: fit_NoneE)
  from fit_None_intervals [OF assms]
  have K: "n_intervals r = (if \<lfloor>sqrt (real (n_cols X))\<rfloor> = 0 then 1 else \<lfloor>sqrt (real (n_cols X))\<rfloor>)"
    by (simp add: default_n_intervals_def)
  from fit_None_shape [OF assms] fit_None_intervals [OF assms]
  have shape: "length (estimators' r) = nat (n_estimators f)"
    "length (intervals' r) = nat (n_estimators f)"
    "\<forall>ivs \<in> set (intervals' r). int (length ivs) = n_intervals r"
    "classes' r = np_unique y"
    by simp_all
  have members: "\<forall>i < length (estimators' r). \<exists>g clone g'.
            clone_estimator env g = Inr (clone, g') \<and>
            estimator_fit env clone (transform (slope env) X (intervals' r ! i)) y =
              Inr (estimators' r ! i)"
    using fit_None_members [OF assms] by blast
  from fitted K shape members np_unique_props [of y] show ?thesis by simp
qed

theorem fit_ensemble_shape_witness:
  "fit stub_env [] (init 3 3 (Some 1) (Some 0)) panel8 [0, 1, 0, 1] = (None, fitted8) \<and>
   is_fitted fitted8 \<and>
   length (estimators' fitted8) = 3 \<and>
   length (intervals' fitted8) = 3 \<and>
   intervals' fitted8 = [[(0, 3), (2, 5)], [(4, 7), (1, 4)], [(3, 6), (0, 4)]] \<and>
   estimator_fit stub_env [] (transform (slope stub_env) panel8 [(0, 3), (2, 5)]) [0, 1, 0, 1] =
     Inr (estimators' fitted8 ! 0) \<and>
   estimators' fitted8 ! 0 = [0, 1, 2, 3, 4, 5] \<and>
   n_intervals fitted8 = 2 \<and>
   classes' fitted8 = [0, 1] \<and>
   fst (fit stub_env [] (init 3 0 (Some 1) (Some 0)) panel0 []) = None \<and>
   n_intervals (snd (fit stub_env [] (init 3 0 (Some 1) (Some 0)) panel0 [])) = 1"
proof -
  have six: "map real [0..<6] = [0, 1, 2, 3, 4, 5]"
    by (simp add: upt_rec)
  have est0: "estimator_fit stub_env [] (transform (slope stub_env) panel8 [(0, 3), (2, 5)]) [0, 1, 0, 1] =
     Inr (estimators' fitted8 ! 0)"
    by (simp add: fitted8_fields stub_env_def n_cols_transform)
  have cls: "classes' fitted8 = [0, 1]"
    using fit_ensemble_shape [OF fit8_stub] fit_None_shape [OF fit8_stub]
    by (simp add: np_unique_def)
  have f0: "fst (fit stub_env [] (init 3 0 (Some 1) (Some 0)) panel0 []) = None"
    unfolding fit_unfold
    by (simp add: init_def stub_env_def check_random_state_def Parallel_def)
  then have zero: "fit stub_env [] (init 3 0 (Some 1) (Some 0)) panel0 [] =
     (None, snd (fit stub_env [] (init 3 0 (Some 1) (Some 0)) panel0 []))"
    by (simp add: prod_eq_iff)
  from fit_ensemble_shape [OF zero]
  have k0: "n_intervals (snd (fit stub_env [] (init 3 0 (Some 1) (Some 0)) panel0 [])) = 1"
    by (simp add: panel0_def)
  from fit_ensemble_shape [OF fit8_stub] fit8_stub est0 cls k0 f0 show ?thesis
    by (simp add: fitted8_fields six)
qed

text \<open>
  C10. When the series length \<open>L\<close> is smaller than the configured \<open>min_interval\<close>, fit
  overwrites the attribute with \<open>L\<close>, and the object keeps the new value whether the
  call then returns or raises. It does not touch \<open>n_estimators\<close>, \<open>n_jobs\<close> or
  \<open>random_state\<close>. The assignment of line 113 is reached when the checks of \<open>n_jobs\<close> and
  \<open>random_state\<close> of lines 102 and 104 have not raised; when one of them raises,
  \<open>min_interval\<close> keeps its value.
\<close>

theorem fit_overwrites_min_interval:
  "n_estimators (snd (fit env sched f X y)) = n_estimators f \<and>
   n_jobs (snd (fit env sched f X y)) = n_jobs f \<and>
   random_state (snd (fit env sched f X y)) = random_state f \<and>
   min_interval (snd (fit env sched f X y)) =
     (if isl (check_n_jobs env (n_jobs f)) \<or> isl (check_random_state env (random_state f))
      then min_interval f
      else if int (n_cols X) < min_interval f then int (n_cols X)
      else min_interval f)"
  using fit_frame [of env sched f X y] fit_min_interval [of env sched f X y]
  by (simp add: clamped_min_interval_def)

theorem fit_overwrites_min_interval_witness:
  "check_n_jobs stub_env (n_jobs (default_forest :: real list forest)) = Inr 1 \<and>
   check_random_state stub_env (random_state (default_forest :: real list forest)) = Inr (\<lambda>_. 0) \<and>
   int (n_cols panel2) < min_interval (default_forest :: real list forest) \<and>
   min_interval (default_forest :: real list forest) = 3 \<and>
   min_interval (snd (fit stub_env [] default_forest panel2 [0, 1])) = 2 \<and>
   n_estimators (snd (fit stub_env [] default_forest panel2 [0, 1])) = 200 \<and>
   n_jobs (snd (fit stub_env [] default_forest panel2 [0, 1])) = Some 1 \<and>
   random_state (snd (fit stub_env [] default_forest panel2 [0, 1])) = None"
proof -
  have h: "check_n_jobs stub_env (n_jobs (default_forest :: real list forest)) = Inr 1"
    "check_random_state stub_env (random_state (default_forest :: real list forest)) = Inr (\<lambda>_. 0)"
    "int (n_cols panel2) < min_interval (default_forest :: real list forest)"
    "min_interval (default_forest :: real list forest) = 3"
    by (simp_all add: stub_env_def default_forest_def init_def check_random_state_def panel2_def)
  from fit_overwrites_min_interval [of stub_env "[]" default_forest panel2 "[0, 1]"] h
  show ?thesis by (simp add: default_forest_def init_def panel2_def)
qed

text \<open>
  C5, as stated: every call of the sampler with \<open>m \<ge> L\<close> raises, so fit fails on a panel
  with \<open>L \<le> min_interval\<close>. A call for no interval draws nothing and returns the empty
  interval set, and a fit of no member samples nothing and succeeds.
\<close>

theorem sampler_without_draw_returns:
  "(3::int) \<le> 3 \<and> get_intervals 0 3 3 (\<lambda>_. 0) = Inr ([], (\<lambda>_. 0)) \<and>
   int (n_cols \<lparr>n_rows = 2, n_cols = 3, cells = [[1, 2, 3], [4, 5, 6]]\<rparr>) \<le> 3 \<and>
   fst (fit stub_env [] (init 3 0 (Some 1) (Some 0))
          \<lparr>n_rows = 2, n_cols = 3, cells = [[1, 2, 3], [4, 5, 6]]\<rparr> [0, 1]) = None"
  unfolding fit_unfold
  by (simp add: get_intervals_def init_def stub_env_def check_random_state_def Parallel_def)

text \<open>
  C5, amended. A call of the sampler for at least one interval with \<open>m \<ge> L\<close> raises
  \<^verbatim>\<open>ValueError\<close> (the first draw has the bound \<open>L - m \<le> 0\<close>); with \<open>1 \<le> m < L\<close> the call
  returns. A fit of at least one member on a panel with \<open>L \<le> min_interval\<close> raises.
\<close>

theorem sampler_raises_when_min_reaches_length:
  "(1 \<le> K \<and> L \<le> m \<longrightarrow> get_intervals K m L rng = Inl ValueError) \<and>
   (0 \<le> K \<and> 1 \<le> m \<and> m < L \<longrightarrow> (\<exists>ivs rng'. get_intervals K m L rng = Inr (ivs, rng'))) \<and>
   (1 \<le> n_estimators f \<and> int (n_cols X) \<le> min_interval f \<longrightarrow>
      (\<exists>e. fst (fit env sched f X y) = Some e))"
  using get_intervals_short [of K L m rng] get_intervals_total [of K m L rng]
    fit_short_series [of f X env sched y]
  by blast

theorem sampler_raises_when_min_reaches_length_witness:
  "(1::int) \<le> 1 \<and> (3::int) \<le> 3 \<and> get_intervals 1 3 3 (\<lambda>_. 0) = Inl ValueError \<and>
   (0::int) \<le> 1 \<and> (1::int) \<le> 3 \<and> (3::int) < 4 \<and>
   (\<exists>ivs rng'. get_intervals 1 3 4 (\<lambda>_. 0) = Inr (ivs, rng')) \<and>
   1 \<le> n_estimators (default_forest :: real list forest) \<and>
   int (n_cols panel2) \<le> min_interval (default_forest :: real list forest) \<and>
   (\<exists>e. fst (fit stub_env [] default_forest panel2 [0, 1]) = Some e)"
proof -
  have h: "1 \<le> n_estimators (default_forest :: real list forest)"
    "int (n_cols panel2) \<le> min_interval (default_forest :: real list forest)"
    by (simp_all add: default_forest_def init_def panel2_def)
  from sampler_raises_when_min_reaches_length [of 1 3 3 "\<lambda>_. 0" default_forest panel2 stub_env "[]" "[0, 1]"]
    sampler_raises_when_min_reaches_length [of 1 4 3 "\<lambda>_. 0" default_forest panel2 stub_env "[]" "[0, 1]"]
    h
  show ?thesis by simp
qed

text \<open>
  C3. Two fits on the same panel and labels, with the same seed \<open>s\<close>, the same
  \<open>min_interval\<close> and the same \<open>n_estimators\<close>, that both succeed, leave the same interval
  sets and the same \<open>classes'\<close>. Everything else may differ between the two runs: the
  number of jobs, the schedule of the workers, the state of the global generator, the
  learner. The intervals of all members are drawn before any member is fitted.
\<close>

theorem fit_intervals_deterministic:
  assumes "fit env sched f X y = (None, r)"
    and "fit env' sched' f' X y = (None, r')"
    and "random_state f = Some s" and "random_state f' = Some s"
    and "RandomState env' s = RandomState env s"
    and "min_interval f' = min_interval f"
    and "n_estimators f' = n_estimators f"
  shows "intervals' r' = intervals' r \<and> classes' r' = classes' r"
proof -
  from assms(1) obtain g sampled g1 fitted nj where
    rs: "check_random_state env (random_state f) = Inr g"
    and smp: "sample_members (nat (n_estimators f)) (default_n_intervals (int (n_cols X)))
       (clamped_min_interval (min_interval f) (int (n_cols X))) (int (n_cols X)) g = Inr (sampled, g1)"
    and r: "r = (prepared f X y)\<lparr>intervals' := sampled, estimators' := fitted, is_fitted := True\<rparr>"
    by (rule fit_NoneE)
  from assms(2) obtain h sampled' h1 fitted' nj' where
    rs': "check_random_state env' (random_state f') = Inr h"
    and smp': "sample_members (nat (n_estimators f')) (default_n_intervals (int (n_cols X)))
       (clamped_min_interval (min_interval f') (int (n_cols X))) (int (n_cols X)) h = Inr (sampled', h1)"
    and r': "r' = (prepared f' X y)\<lparr>intervals' := sampled', estimators' := fitted', is_fitted := True\<rparr>"
    by (rule fit_NoneE)
  from rs rs' assms(3,4,5) have "h = g"
    by (simp add: check_random_state_def)
  with smp smp' assms(6,7) have "sampled' = sampled" by simp
  with r r' show ?thesis by (simp add: prepared_def)
qed

theorem fit_intervals_deterministic_witness:
  "fst (fit stub_env [] (init 3 3 (Some 1) (Some 0)) panel8 [0, 1, 0, 1]) = None \<and>
   fst (fit (stub_env\<lparr>np_random := (\<lambda>i. 7 * i)\<rparr>) [2, 0, 1] (init 3 3 (Some 4) (Some 0)) panel8 [0, 1, 0, 1]) = None \<and>
   intervals' (snd (fit (stub_env\<lparr>np_random := (\<lambda>i. 7 * i)\<rparr>) [2, 0, 1] (init 3 3 (Some 4) (Some 0)) panel8 [0, 1, 0, 1])) =
     intervals' (snd (fit stub_env [] (init 3 3 (Some 1) (Some 0)) panel8 [0, 1, 0, 1])) \<and>
   classes' (snd (fit (stub_env\<lparr>np_random := (\<lambda>i. 7 * i)\<rparr>) [2, 0, 1] (init 3 3 (Some 4) (Some 0)) panel8 [0, 1, 0, 1])) =
     classes' (snd (fit stub_env [] (init 3 3 (Some 1) (Some 0)) panel8 [0, 1, 0, 1]))"
proof -
  have "stub_env\<lparr>np_random := np_random stub_env\<rparr> = stub_env" by simp
  with fit8 [of 1 "np_random stub_env" "[]"]
  have a: "fit stub_env [] (init 3 3 (Some 1) (Some 0)) panel8 [0, 1, 0, 1] =
      (None, snd (fit stub_env [] (init 3 3 (Some 1) (Some 0)) panel8 [0, 1, 0, 1]))"
    by simp
  from fit8 [of 4 "\<lambda>i. 7 * i" "[2, 0, 1]"]
  have b: "fit (stub_env\<lparr>np_random := (\<lambda>i. 7 * i)\<rparr>) [2, 0, 1] (init 3 3 (Some 4) (Some 0)) panel8 [0, 1, 0, 1] =
      (None, snd (fit (stub_env\<lparr>np_random := (\<lambda>i. 7 * i)\<rparr>) [2, 0, 1] (init 3 3 (Some 4) (Some 0)) panel8 [0, 1, 0, 1]))"
    by simp
  have c: "random_state (init 3 3 (Some 1) (Some 0) :: real list forest) = Some 0"
    "random_state (init 3 3 (Some 4) (Some 0) :: real list forest) = Some 0"
    "RandomState (stub_env\<lparr>np_random := (\<lambda>i. 7 * i)\<rparr>) 0 = RandomState stub_env 0"
    "min_interval (init 3 3 (Some 4) (Some 0) :: real list forest) = min_interval (init 3 3 (Some 1) (Some 0) :: real list forest)"
    "n_estimators (init 3 3 (Some 4) (Some 0) :: real list forest) = n_estimators (init 3 3 (Some 1) (Some 0) :: real list forest)"
    by (simp_all add: init_def)
  from fit_intervals_deterministic [OF a b c] a b show ?thesis
    by (metis fst_conv)
qed

section \<open>Properties of the temporal curves\<close>

text \<open>
  C7. After a fit, when every fitted tree gives at least \<open>3K\<close> importances (the contract
  of the base learner, \<open>K\<close> the number of intervals of a member), the curve computation
  returns normally and the four curves have length \<open>L\<close>. At every index \<open>t\<close> the coverage
  curve is the number of pairs of a member and one of its intervals with
  \<open>start \<le> t < end\<close>, and the mean, standard deviation and slope curves are the sums,
  over the same pairs, of the tree's importance at the offsets \<open>3j\<close>, \<open>3j + 1\<close>, \<open>3j + 2\<close>
  of the interval \<open>j\<close>. The sums are not normalised. The sums are sums of real numbers:
  the rounding of floating-point addition is not modelled.
\<close>

theorem temporal_curves_after_fit:
  assumes "fit env sched f0 X y = (None, f)"
    and "\<forall>est \<in> set (estimators' f). 3 * nat (n_intervals f) \<le> length (feature_importances env est)"
  shows "temporal_curves' env f =
     (None, f\<lparr>mean_curve' := Some (map (importance_curve env 0 (zip (estimators' f) (intervals' f))) [0..<n_cols X]),
              stdev_curve' := Some (map (importance_curve env 1 (zip (estimators' f) (intervals' f))) [0..<n_cols X]),
              slope_curve' := Some (map (importance_curve env 2 (zip (estimators' f) (intervals' f))) [0..<n_cols X]),
              n_intervals_wts_curve' := Some (map (coverage_curve (zip (estimators' f) (intervals' f))) [0..<n_cols X])\<rparr>)"
proof -
  from fit_None_intervals [OF assms(1)] have L: "series_length f = int (n_cols X)"
    and K: "n_intervals f = default_n_intervals (int (n_cols X))"
    and inside: "\<forall>ivs \<in> set (intervals' f). \<forall>iv \<in> set ivs.
            0 \<le> fst iv \<and> fst iv \<le> snd iv \<and> snd iv \<le> int (n_cols X) - 1"
    by simp_all
  from fit_None_shape [OF assms(1)] K
  have each: "\<forall>ivs \<in> set (intervals' f). int (length ivs) = n_intervals f" by simp
  have "\<forall>m \<in> set (zip (estimators' f) (intervals' f)).
           (\<forall>iv \<in> set (snd m). 0 \<le> fst iv \<and> snd iv \<le> int (n_cols X)) \<and>
           3 * length (snd m) \<le> length (feature_importances env (fst m))"
  proof
    fix m assume "m \<in> set (zip (estimators' f) (intervals' f))"
    then have mz: "(fst m, snd m) \<in> set (zip (estimators' f) (intervals' f))" by simp
    from set_zip_leftD [OF mz] have est: "fst m \<in> set (estimators' f)" .
    from set_zip_rightD [OF mz] have ivs: "snd m \<in> set (intervals' f)" .
    from inside ivs have a: "\<forall>iv \<in> set (snd m). 0 \<le> fst iv \<and> snd iv \<le> int (n_cols X)"
      by fastforce
    from each ivs have "length (snd m) = nat (n_intervals f)" by fastforce
    with assms(2) est have "3 * length (snd m) \<le> length (feature_importances env (fst m))"
      by simp
    with a show "(\<forall>iv \<in> set (snd m). 0 \<le> fst iv \<and> snd iv \<le> int (n_cols X)) \<and>
           3 * length (snd m) \<le> length (feature_importances env (fst m))" by simp
  qed
  from temporal_curves_valid [OF L this] show ?thesis .
qed

theorem temporal_curves_after_fit_witness:
  "fit stub_env [] (init 3 3 (Some 1) (Some 0)) panel8 [0, 1, 0, 1] = (None, fitted8) \<and>
   list_all (\<lambda>est. 3 * nat (n_intervals fitted8) \<le> length (feature_importances stub_env est))
     (estimators' fitted8) \<and>
   fst (temporal_curves' stub_env fitted8) = None \<and>
   n_intervals_wts_curve' (snd (temporal_curves' stub_env fitted8)) = Some [2, 3, 4, 4, 3, 2, 1, 0] \<and>
   mean_curve' (snd (temporal_curves' stub_env fitted8)) = Some [3, 6, 9, 9, 3, 0, 0, 0]"
proof -
  have imp: "\<forall>est \<in> set (estimators' fitted8).
      3 * nat (n_intervals fitted8) \<le> length (feature_importances stub_env est)"
    by (simp add: fitted8_fields stub_env_def)
  have up: "[0..<n_cols panel8] = [0, 1, 2, 3, 4, 5, 6, 7]"
    by (simp add: panel8_def upt_rec)
  have fi: "feature_importances stub_env t = t" for t
    by (simp add: stub_env_def)
  have six: "map real [0..<6] = [0, 1, 2, 3, 4, 5]"
    by (simp add: upt_rec)
  from imp have imp': "list_all (\<lambda>est. 3 * nat (n_intervals fitted8) \<le> length (feature_importances stub_env est))
     (estimators' fitted8)"
    by (simp add: list_all_iff)
  from temporal_curves_after_fit [OF fit8_stub imp] fit8_stub
  have "fst (temporal_curves' stub_env fitted8) = None \<and>
   n_intervals_wts_curve' (snd (temporal_curves' stub_env fitted8)) = Some [2, 3, 4, 4, 3, 2, 1, 0] \<and>
   mean_curve' (snd (temporal_curves' stub_env fitted8)) = Some [3, 6, 9, 9, 3, 0, 0, 0]"
    unfolding up fitted8_fields
    by (simp add: coverage_curve_def member_coverage_def covers_def importance_curve_def
        member_importance_def fi six)
  with fit8_stub imp' show ?thesis by simp
qed

text \<open>
  C8. A second call of the curve computation, on the object that the first call left,
  gives the same result as the first. The result is a function of the series length,
  the stored interval sets and the stored estimators with their importances: two
  objects that agree on them get the same curves, whatever else they hold. The panel is
  not an argument of the computation.
\<close>

theorem temporal_curves_idempotent:
  "temporal_curves' env (snd (temporal_curves' env f)) = temporal_curves' env f \<and>
   (series_length g = series_length f \<and> estimators' g = estimators' f \<and>
    intervals' g = intervals' f \<and> 0 \<le> series_length f \<longrightarrow>
      fst (temporal_curves' env g) = fst (temporal_curves' env f) \<and>
      mean_curve' (snd (temporal_curves' env g)) = mean_curve' (snd (temporal_curves' env f)) \<and>
      stdev_curve' (snd (temporal_curves' env g)) = stdev_curve' (snd (temporal_curves' env f)) \<and>
      slope_curve' (snd (temporal_curves' env g)) = slope_curve' (snd (temporal_curves' env f)) \<and>
      n_intervals_wts_curve' (snd (temporal_curves' env g)) =
        n_intervals_wts_curve' (snd (temporal_curves' env f)))"
proof -
  let ?f1 = "snd (temporal_curves' env f)"
  have idem: "temporal_curves' env ?f1 = temporal_curves' env f"
  proof (cases "series_length f < 0")
    case True
    then show ?thesis by (simp add: temporal_curves_unfold)
  next
    case False
    from temporal_curves_frame [of env f] have fr: "series_length ?f1 = series_length f"
      "estimators' ?f1 = estimators' f" "intervals' ?f1 = intervals' f" by simp_all
    from False have "0 \<le> series_length f" by simp
    from temporal_curves_transfer [OF fr this, of env]
    show ?thesis by (simp add: prod_eq_iff)
  qed
  have dep: "fst (temporal_curves' env g) = fst (temporal_curves' env f) \<and>
      mean_curve' (snd (temporal_curves' env g)) = mean_curve' (snd (temporal_curves' env f)) \<and>
      stdev_curve' (snd (temporal_curves' env g)) = stdev_curve' (snd (temporal_curves' env f)) \<and>
      slope_curve' (snd (temporal_curves' env g)) = slope_curve' (snd (temporal_curves' env f)) \<and>
      n_intervals_wts_curve' (snd (temporal_curves' env g)) =
        n_intervals_wts_curve' (snd (temporal_curves' env f))"
    if "series_length g = series_length f" "estimators' g = estimators' f"
      "intervals' g = intervals' f" "0 \<le> series_length f"
    using temporal_curves_transfer [OF that, of env] by simp
  from idem dep show ?thesis by blast
qed

theorem temporal_curves_idempotent_witness:
  "temporal_curves' stub_env (snd (temporal_curves' stub_env fitted8)) =
     temporal_curves' stub_env fitted8 \<and>
   series_length (fitted8\<lparr>mean_curve' := Some [1], is_fitted := False\<rparr>) = series_length fitted8 \<and>
   estimators' (fitted8\<lparr>mean_curve' := Some [1], is_fitted := False\<rparr>) = estimators' fitted8 \<and>
   intervals' (fitted8\<lparr>mean_curve' := Some [1], is_fitted := False\<rparr>) = intervals' fitted8 \<and>
   0 \<le> series_length fitted8 \<and>
   fst (temporal_curves' stub_env (fitted8\<lparr>mean_curve' := Some [1], is_fitted := False\<rparr>)) =
     fst (temporal_curves' stub_env fitted8) \<and>
   mean_curve' (snd (temporal_curves' stub_env (fitted8\<lparr>mean_curve' := Some [1], is_fitted := False\<rparr>))) =
     mean_curve' (snd (temporal_curves' stub_env fitted8)) \<and>
   n_intervals_wts_curve' (snd (temporal_curves' stub_env (fitted8\<lparr>mean_curve' := Some [1], is_fitted := False\<rparr>))) =
     n_intervals_wts_curve' (snd (temporal_curves' stub_env fitted8))"
proof -
  have h: "0 \<le> series_length fitted8" by (simp add: fitted8_fields)
  from temporal_curves_idempotent [of stub_env fitted8 "fitted8\<lparr>mean_curve' := Some [1], is_fitted := False\<rparr>"] h
  show ?thesis by simp
qed

text \<open>
  C4, as stated: on an object on which fit has not completed, \<^verbatim>\<open>_get_fitted_params\<close> and
  \<^verbatim>\<open>temporal_curves_\<close> raise \<^verbatim>\<open>NotFittedError\<close> and change nothing. Neither method tests
  \<^verbatim>\<open>_is_fitted\<close>: on a new object the first returns the three empty lists, and the second
  returns normally and replaces the four curves, which were \<^verbatim>\<open>None\<close>, by empty arrays.
\<close>

theorem not_fitted_guard_missing:
  "\<not> is_fitted (default_forest :: real list forest) \<and>
   get_fitted_params (default_forest :: real list forest) = Inr ([], [], []) \<and>
   temporal_curves' stub_env default_forest =
     (None, default_forest\<lparr>mean_curve' := Some [], stdev_curve' := Some [],
        slope_curve' := Some [], n_intervals_wts_curve' := Some []\<rparr>) \<and>
   snd (temporal_curves' stub_env default_forest) \<noteq> (default_forest :: real list forest)"
proof -
  have tc: "temporal_curves' stub_env default_forest =
     (None, (default_forest :: real list forest)\<lparr>mean_curve' := Some [], stdev_curve' := Some [],
        slope_curve' := Some [], n_intervals_wts_curve' := Some []\<rparr>)"
    by (simp add: temporal_curves'_def default_forest_def init_def np_zeros_def Let_def)
  have ne: "(default_forest :: real list forest)\<lparr>mean_curve' := Some [], stdev_curve' := Some [],
        slope_curve' := Some [], n_intervals_wts_curve' := Some []\<rparr> \<noteq> default_forest"
  proof
    assume "(default_forest :: real list forest)\<lparr>mean_curve' := Some [], stdev_curve' := Some [],
        slope_curve' := Some [], n_intervals_wts_curve' := Some []\<rparr> = default_forest"
    then have "mean_curve' ((default_forest :: real list forest)\<lparr>mean_curve' := Some [], stdev_curve' := Some [],
        slope_curve' := Some [], n_intervals_wts_curve' := Some []\<rparr>) = mean_curve' (default_forest :: real list forest)"
      by simp
    then show False by (simp add: default_forest_def init_def)
  qed
  show ?thesis
    unfolding tc using ne
    by (simp add: get_fitted_params_def default_forest_def init_def)
qed

text \<open>
  C4, amended. On an object on which fit has never completed (a new object, also after
  calls of fit that raised and calls of the curve computation), neither method raises:
  \<^verbatim>\<open>_get_fitted_params\<close> returns the current \<open>classes'\<close>, \<open>intervals'\<close> and \<open>estimators'\<close>,
  which are values read from the object; \<^verbatim>\<open>temporal_curves_\<close> sets the four curves to
  arrays of \<open>series_length\<close> zeros and changes no other attribute.
\<close>

theorem unfitted_calls_return:
  assumes "never_fitted env f"
  shows "\<not> is_fitted f \<and>
         get_fitted_params f = Inr (classes' f, intervals' f, estimators' f) \<and>
         temporal_curves' env f =
           (None, f\<lparr>mean_curve' := Some (replicate (nat (series_length f)) 0),
                    stdev_curve' := Some (replicate (nat (series_length f)) 0),
                    slope_curve' := Some (replicate (nat (series_length f)) 0),
                    n_intervals_wts_curve' := Some (replicate (nat (series_length f)) 0)\<rparr>)"
proof -
  from never_fitted_invariant [OF assms]
  have nf: "\<not> is_fitted f" and est: "estimators' f = []" and L: "0 \<le> series_length f"
    by simp_all
  from est L have "temporal_curves' env f = (None, zeroed f)"
    by (simp add: temporal_curves_unfold)
  with nf show ?thesis
    by (simp add: get_fitted_params_def zeroed_def)
qed

theorem unfitted_calls_return_witness:
  "never_fitted stub_env (default_forest :: real list forest) \<and>
   get_fitted_params (default_forest :: real list forest) = Inr ([], [], []) \<and>
   fst (temporal_curves' stub_env (default_forest :: real list forest)) = None \<and>
   mean_curve' (snd (temporal_curves' stub_env (default_forest :: real list forest))) = Some []"
proof -
  have nf: "never_fitted stub_env (default_forest :: real list forest)"
    unfolding default_forest_def by (rule never_fitted.new)
  from unfitted_calls_return [OF nf] nf show ?thesis
    by (simp add: default_forest_def init_def)
qed

end
